theory Spec2Isabelle
  imports Complex_Main
begin

section \<open>ReasoningBank memory subsystem: consolidation and test-time scaling\<close>

text \<open>
  A shallow embedding of \<^verbatim>\<open>services/memoryTestTimeScaling.js\<close> and
  \<^verbatim>\<open>services/memoryConsolidation.js\<close>. Scores and stored success rates are
  modelled as exact reals and counters as integers; the similarity of two embeddings
  and the success rate of a merged record are computed in double precision, with the
  arithmetic of the runtime as a parameter. A thrown exception is the left injection of a sum, a missing value is \<open>None\<close> (where
  the code tells \<^verbatim>\<open>null\<close> from \<^verbatim>\<open>undefined\<close>, so does the model), and
  every external capability (repository, embedder, executor, reflector, text generation)
  is a function on an abstract world state \<open>'w\<close> that returns its outcome and the next
  world.
\<close>

subsection \<open>Errors and JavaScript values\<close>

text \<open>
  \<open>Thrown msg\<close> is an exception raised by a capability; \<open>TypeError\<close> is the one the
  runtime raises when a property of \<^verbatim>\<open>null\<close> or \<^verbatim>\<open>undefined\<close> is read.
\<close>

datatype error = Thrown string | TypeError

fun message :: "error \<Rightarrow> string" where
  "message (Thrown msg) = msg"
| "message TypeError = ''TypeError''"

text \<open>
  The values an \<open>embedding\<close> field can hold: nothing, a number, a string, an array of
  numbers, or an object with named properties (Firestore's vector wrapper is the object
  \<^verbatim>\<open>{_values: [...]}\<close>).
\<close>

datatype jsval = Null | Undefined | Num real | Str string | Arr "real list"
  | Obj "(string \<times> jsval) list"

fun truthy :: "jsval \<Rightarrow> bool" where
  "truthy Null = False"
| "truthy Undefined = False"
| "truthy (Num x) = (x \<noteq> 0)"
| "truthy (Str s) = (s \<noteq> [])"
| "truthy (Arr a) = True"
| "truthy (Obj fs) = True"

text \<open>Reading property \<open>k\<close> of a value that is not null; a missing property is undefined.\<close>

fun getProp :: "jsval \<Rightarrow> string \<Rightarrow> jsval" where
  "getProp (Obj fs) k = (case map_of fs k of Some v \<Rightarrow> v | None \<Rightarrow> Undefined)"
| "getProp v k = Undefined"

subsection \<open>Double-precision arithmetic\<close>

text \<open>
  A JavaScript number is an IEEE double: a finite value, an infinity or not-a-number.
  The four operations that the similarity computation and the merge use are parameters,
  so that nothing proved below depends on how they round, overflow or underflow.
\<close>

datatype double = Finite real | PosInf | NegInf | NaN

record arith =
  fadd :: "double \<Rightarrow> double \<Rightarrow> double"
  fmul :: "double \<Rightarrow> double \<Rightarrow> double"
  fdiv :: "double \<Rightarrow> double \<Rightarrow> double"
  fsqrt :: "double \<Rightarrow> double"

text \<open>\<^verbatim>\<open>x >= c\<close> for a double \<open>x\<close> and a finite constant \<open>c\<close>; false for not-a-number.\<close>

fun geDouble :: "double \<Rightarrow> real \<Rightarrow> bool" where
  "geDouble (Finite x) c = (x \<ge> c)"
| "geDouble PosInf c = True"
| "geDouble NegInf c = False"
| "geDouble NaN c = False"




subsection \<open>Cosine similarity\<close>

text \<open>\<^verbatim>\<open>vec._values || vec\<close>\<close>

definition unwrapValues :: "jsval \<Rightarrow> jsval" where
  "unwrapValues vec =
     (if truthy (getProp vec ''_values'') then getProp vec ''_values'' else vec)"

text \<open>
  The accumulating loop of \<^verbatim>\<open>_cosineSimilarity\<close>, run on arrays of equal length
  whose elements are finite numbers.
\<close>

fun cosineLoop ::
  "arith \<Rightarrow> real list \<Rightarrow> real list \<Rightarrow> double \<times> double \<times> double
     \<Rightarrow> double \<times> double \<times> double" where
  "cosineLoop ar (x # xs) (y # ys) (dotProduct, mag1, mag2) =
     cosineLoop ar xs ys
       (fadd ar dotProduct (fmul ar (Finite x) (Finite y)),
        fadd ar mag1 (fmul ar (Finite x) (Finite x)),
        fadd ar mag2 (fmul ar (Finite y) (Finite y)))"
| "cosineLoop ar xs ys acc = acc"

definition cosineSimilarity :: "arith \<Rightarrow> jsval \<Rightarrow> jsval \<Rightarrow> double" where
  "cosineSimilarity ar vec1 vec2 =
     (if \<not> truthy vec1 \<or> \<not> truthy vec2 then Finite 0
      else
        case unwrapValues vec1 of
          Arr arr1 \<Rightarrow>
            (case unwrapValues vec2 of
               Arr arr2 \<Rightarrow>
                 if length arr1 \<noteq> length arr2 then Finite 0
                 else
                   let (dotProduct, mag1, mag2) =
                         cosineLoop ar arr1 arr2 (Finite 0, Finite 0, Finite 0);
                       mag1 = fsqrt ar mag1;
                       mag2 = fsqrt ar mag2
                   in if mag1 = Finite 0 \<or> mag2 = Finite 0 then Finite 0
                      else fdiv ar dotProduct (fmul ar mag1 mag2)
             | _ \<Rightarrow> Finite 0)
        | _ \<Rightarrow> Finite 0)"



subsection \<open>Trajectory results and their score\<close>

text \<open>
  The fields of an executor result that the service reads. \<open>outputData\<close> holds the
  object's own keys, \<open>payload\<close> stands for every field the service never looks at.
\<close>

record result =
  success :: bool
  steps :: "real option"
  executionTime :: "real option"
  outputData :: "string list option"
  htmlReport :: "string option"
  payload :: string

text \<open>
  \<^verbatim>\<open>_scoreTrajectory\<close>. A guard \<^verbatim>\<open>result.steps && result.steps < 10\<close> is
  JavaScript truthiness followed by the comparison: a number is truthy when it is not
  zero, an object always, a string when it is not empty.
\<close>

definition truthyNum :: "real option \<Rightarrow> bool" where
  "truthyNum v = (case v of None \<Rightarrow> False | Some x \<Rightarrow> x \<noteq> 0)"

definition scoreTrajectory :: "result option \<Rightarrow> real" where
  "scoreTrajectory res =
     (case res of
        None \<Rightarrow> 0
      | Some r \<Rightarrow>
          if \<not> success r then 0
          else
            let score = 0.5;
                score = (if truthyNum (steps r) \<and> the (steps r) < 10
                         then score + 0.2 else score);
                score = (if truthyNum (executionTime r) \<and> the (executionTime r) < 5000
                         then score + 0.1 else score);
                score = (if outputData r \<noteq> None \<and> length (the (outputData r)) > 5
                         then score + 0.1 else score);
                score = (if htmlReport r \<noteq> None \<and> htmlReport r \<noteq> Some []
                            \<and> length (the (htmlReport r)) > 1000
                         then score + 0.1 else score)
            in min score 1.0)"

text \<open>
  The score as the specification words it: each bonus is granted when the field is
  present and below (or above) its bound.
\<close>

definition score_spec :: "result option \<Rightarrow> real" where
  "score_spec res =
     (case res of
        None \<Rightarrow> 0
      | Some r \<Rightarrow>
          if \<not> success r then 0
          else min 1.0
            (0.5
             + (case steps r of Some s \<Rightarrow> if s < 10 then 0.2 else 0 | None \<Rightarrow> 0)
             + (case executionTime r of Some t \<Rightarrow> if t < 5000 then 0.1 else 0 | None \<Rightarrow> 0)
             + (case outputData r of Some ks \<Rightarrow> if length ks > 5 then 0.1 else 0 | None \<Rightarrow> 0)
             + (case htmlReport r of Some h \<Rightarrow> if length h > 1000 then 0.1 else 0 | None \<Rightarrow> 0)))"

subsection \<open>Memory records and the repository\<close>

text \<open>
  The fields of a memory record that consolidation reads. A record is a loose object:
  \<open>timesRetrieved\<close>, the two use counters and the timestamps may be missing (\<open>None\<close>),
  and \<open>successRate\<close> may be missing, \<^verbatim>\<open>null\<close> or a number. Timestamps are the
  \<^verbatim>\<open>_seconds\<close> of a Firestore timestamp.
\<close>

datatype rateField = RateMissing | RateNull | Rate real

record memory =
  memoryId :: string
  embedding :: jsval
  timesRetrieved :: "int option"
  timesUsedInSuccess :: "int option"
  timesUsedInFailure :: "int option"
  successRate :: rateField
  createdAt :: "int option"
  updatedAt :: "int option"

text \<open>
  The patch of a merge. Its first field is the sum of two \<open>timesRetrieved\<close>, which is
  not a number (\<open>None\<close>) when one of them is missing; its last field is a quotient
  computed in double precision, or null (\<open>None\<close>).
\<close>

datatype patch = Patch (patchTimesRetrieved: "int option") (patchTimesUsedInSuccess: int)
  (patchTimesUsedInFailure: int) (patchSuccessRate: "double option")

text \<open>
  What a pass does to its surroundings, in the order it does it: a write issued to the
  repository (whether or not it then succeeds), or a warning given to the logger with
  its text, the record identifiers and the message of the error caught. Messages of
  the levels info and debug are not recorded.
\<close>

datatype passEvent =
    UpdateMemory string patch
  | DeleteMemory string
  | ArchiveMemory string
  | LogWarn string "string list" string

text \<open>
  The memory model (\<^verbatim>\<open>models/reasoningMemory\<close>) is a collaborator of the verified
  services: each of its operations is a parameter, a function of the world that may throw.
  \<open>nowMs\<close> reads the clock.
\<close>

record 'w repository =
  getAllMemories :: "int \<Rightarrow> 'w \<Rightarrow> (error + memory list option) \<times> 'w"
  updateMemory :: "string \<Rightarrow> patch \<Rightarrow> 'w \<Rightarrow> (error + unit) \<times> 'w"
  deleteMemory :: "string \<Rightarrow> 'w \<Rightarrow> (error + unit) \<times> 'w"
  archiveMemory :: "string \<Rightarrow> 'w \<Rightarrow> (error + unit) \<times> 'w"
  retrieveMemories :: "real list \<Rightarrow> int \<Rightarrow> real \<Rightarrow> 'w \<Rightarrow> (error + memory list option) \<times> 'w"
  updateMemoryStats :: "string list \<Rightarrow> bool \<Rightarrow> 'w \<Rightarrow> (error + unit) \<times> 'w"
  nowMs :: "'w \<Rightarrow> int"

text \<open>
  Comparisons of loose fields. A relational operator converts its operands to numbers:
  \<^verbatim>\<open>null\<close> becomes 0 and a missing field becomes not-a-number (\<open>None\<close>), and a
  comparison with not-a-number is false.
\<close>

fun rateNumber :: "rateField \<Rightarrow> real option" where
  "rateNumber RateMissing = None"
| "rateNumber RateNull = Some 0"
| "rateNumber (Rate r) = Some r"

definition greaterNum :: "real option \<Rightarrow> real option \<Rightarrow> bool" where
  "greaterNum a b = (case a of None \<Rightarrow> False
                     | Some x \<Rightarrow> (case b of None \<Rightarrow> False | Some y \<Rightarrow> x > y))"

definition geCount :: "int option \<Rightarrow> int option \<Rightarrow> bool" where
  "geCount a b = (case a of None \<Rightarrow> False
                  | Some x \<Rightarrow> (case b of None \<Rightarrow> False | Some y \<Rightarrow> x \<ge> y))"

subsection \<open>Consolidation: prune pass\<close>

text \<open>The filter of \<^verbatim>\<open>pruneLowQualityMemories\<close>.\<close>

definition lowQuality :: "memory \<Rightarrow> bool" where
  "lowQuality m =
     (geCount (timesRetrieved m) (Some 10) \<and> successRate m \<noteq> RateNull
      \<and> greaterNum (Some 0.3) (rateNumber (successRate m)))"

text \<open>
  The rule of the specification for the prune pass: retrieved at least 10 times, with a
  success rate that is a number below 0.3.
\<close>

definition prune_spec :: "memory \<Rightarrow> bool" where
  "prune_spec m =
     ((case timesRetrieved m of None \<Rightarrow> False | Some n \<Rightarrow> n \<ge> 10)
      \<and> (case successRate m of Rate r \<Rightarrow> r < 0.3 | _ \<Rightarrow> False))"

text \<open>
  The deletion loop. The \<^verbatim>\<open>catch\<close> around each deletion logs a warning and the
  loop goes on with the next record.
\<close>

fun pruneLoop :: "'w repository \<Rightarrow> memory list \<Rightarrow> 'w \<Rightarrow> passEvent list \<times> 'w" where
  "pruneLoop repo [] w = ([], w)"
| "pruneLoop repo (m # toPrune) w =
     (let (outcome, w1) = deleteMemory repo (memoryId m) w;
          logged = (case outcome of
                      Inl e \<Rightarrow> [LogWarn ''Failed to prune memory'' [memoryId m] (message e)]
                    | Inr u \<Rightarrow> []);
          (events, w2) = pruneLoop repo toPrune w1
      in (DeleteMemory (memoryId m) # logged @ events, w2))"

definition pruneLowQualityMemories ::
  "'w repository \<Rightarrow> 'w \<Rightarrow> (error + nat) \<times> passEvent list \<times> 'w" where
  "pruneLowQualityMemories repo w =
     (case getAllMemories repo 10000 w of
        (Inl e, w1) \<Rightarrow> (Inl e, [], w1)
      | (Inr None, w1) \<Rightarrow> (Inl TypeError, [], w1)
      | (Inr (Some memories), w1) \<Rightarrow>
          let toPrune = filter lowQuality memories;
              (writes, w2) = pruneLoop repo toPrune w1
          in (Inr (length toPrune), writes, w2))"

subsection \<open>Consolidation: merge pass\<close>

text \<open>
  The threshold \<^verbatim>\<open>0.95\<close> of the pair scan is compared with a computed double, so
  it is taken as the double that the literal denotes, the one nearest to 0.95.
\<close>

definition similarityThreshold :: real where
  "similarityThreshold = 4278419646001971 / 2 ^ 52"

text \<open>
  The body of the pair scan for the records at positions \<open>i < j\<close>: the pair is queued
  when both embeddings are present and their similarity reaches the threshold.
\<close>

definition candidatePair :: "arith \<Rightarrow> memory \<Rightarrow> memory \<Rightarrow> (memory \<times> memory \<times> double) list" where
  "candidatePair ar mi mj =
     (if \<not> truthy (embedding mi) \<or> \<not> truthy (embedding mj) then []
      else
        let similarity = cosineSimilarity ar (embedding mi) (embedding mj)
        in if geDouble similarity similarityThreshold then [(mi, mj, similarity)] else [])"

text \<open>The inner loop over \<open>j > i\<close> and the outer loop over \<open>i\<close> of the pair scan.\<close>

fun pairsWith :: "arith \<Rightarrow> memory \<Rightarrow> memory list \<Rightarrow> (memory \<times> memory \<times> double) list" where
  "pairsWith ar mi [] = []"
| "pairsWith ar mi (mj # rest) = candidatePair ar mi mj @ pairsWith ar mi rest"

fun duplicatePairs :: "arith \<Rightarrow> memory list \<Rightarrow> (memory \<times> memory \<times> double) list" where
  "duplicatePairs ar [] = []"
| "duplicatePairs ar (mi # rest) = pairsWith ar mi rest @ duplicatePairs ar rest"

text \<open>\<^verbatim>\<open>x || 0\<close> replaces a missing counter by 0.\<close>

definition orZero :: "int option \<Rightarrow> int" where
  "orZero c = (case c of None \<Rightarrow> 0 | Some n \<Rightarrow> n)"

text \<open>The choice of \<open>(keep, remove)\<close> for a pair.\<close>

definition keepAndRemove :: "memory \<Rightarrow> memory \<Rightarrow> memory \<times> memory" where
  "keepAndRemove memory1 memory2 =
     (if greaterNum (rateNumber (successRate memory1)) (rateNumber (successRate memory2))
        then (memory1, memory2)
      else if greaterNum (rateNumber (successRate memory2)) (rateNumber (successRate memory1))
        then (memory2, memory1)
      else (if geCount (timesRetrieved memory1) (timesRetrieved memory2)
              then memory1 else memory2,
            if geCount (timesRetrieved memory1) (timesRetrieved memory2)
              then memory2 else memory1))"

definition mergedPatch :: "arith \<Rightarrow> memory \<Rightarrow> memory \<Rightarrow> patch" where
  "mergedPatch ar keep remove =
     (let mergedTimesRetrieved =
            (case timesRetrieved keep of None \<Rightarrow> None
             | Some k \<Rightarrow> (case timesRetrieved remove of None \<Rightarrow> None
                          | Some r \<Rightarrow> Some (k + r)));
          mergedTimesSuccessful =
            orZero (timesUsedInSuccess keep) + orZero (timesUsedInSuccess remove);
          mergedTimesFailure =
            orZero (timesUsedInFailure keep) + orZero (timesUsedInFailure remove);
          totalUses = mergedTimesSuccessful + mergedTimesFailure
      in Patch mergedTimesRetrieved mergedTimesSuccessful mergedTimesFailure
           (if totalUses > 0
            then Some (fdiv ar (Finite (of_int mergedTimesSuccessful))
                         (Finite (of_int totalUses)))
            else None))"

text \<open>
  The body of the merge loop for one pair: whether the pair counted as merged, what was
  done, the next world. A throwing update skips the deletion and the count; each
  failure is logged with the identifiers of the pair.
\<close>

definition mergePair ::
  "arith \<Rightarrow> 'w repository \<Rightarrow> memory \<times> memory \<times> double \<Rightarrow> 'w
     \<Rightarrow> bool \<times> passEvent list \<times> 'w" where
  "mergePair ar repo pair w =
     (let (memory1, memory2, similarity) = pair;
          (keep, remove) = keepAndRemove memory1 memory2;
          p = mergedPatch ar keep remove
      in case updateMemory repo (memoryId keep) p w of
           (Inl e, w1) \<Rightarrow>
             (False,
              [UpdateMemory (memoryId keep) p,
               LogWarn ''Failed to merge duplicate memories''
                 [memoryId memory1, memoryId memory2] (message e)], w1)
         | (Inr u, w1) \<Rightarrow>
             (case deleteMemory repo (memoryId remove) w1 of
                (Inl e, w2) \<Rightarrow>
                  (False,
                   [UpdateMemory (memoryId keep) p, DeleteMemory (memoryId remove),
                    LogWarn ''Failed to merge duplicate memories''
                      [memoryId memory1, memoryId memory2] (message e)], w2)
              | (Inr u2, w2) \<Rightarrow>
                  (True, [UpdateMemory (memoryId keep) p, DeleteMemory (memoryId remove)], w2)))"



fun mergeLoop ::
  "arith \<Rightarrow> 'w repository \<Rightarrow> (memory \<times> memory \<times> double) list \<Rightarrow> nat \<Rightarrow> 'w
     \<Rightarrow> nat \<times> passEvent list \<times> 'w"
  where
  "mergeLoop ar repo [] mergedCount w = (mergedCount, [], w)"
| "mergeLoop ar repo (pair # rest) mergedCount w =
     (let (ok, writes1, w1) = mergePair ar repo pair w;
          (n, writes2, w2) =
            mergeLoop ar repo rest (if ok then mergedCount + 1 else mergedCount) w1
      in (n, writes1 @ writes2, w2))"

definition detectAndMergeDuplicates ::
  "arith \<Rightarrow> 'w repository \<Rightarrow> 'w \<Rightarrow> (error + nat) \<times> passEvent list \<times> 'w" where
  "detectAndMergeDuplicates ar repo w =
     (case getAllMemories repo 10000 w of
        (Inl e, w1) \<Rightarrow> (Inl e, [], w1)
      | (Inr None, w1) \<Rightarrow> (Inl TypeError, [], w1)
      | (Inr (Some memories), w1) \<Rightarrow>
          let (mergedCount, writes, w2) = mergeLoop ar repo (duplicatePairs ar memories) 0 w1
          in (Inr mergedCount, writes, w2))"

subsection \<open>Consolidation: archive pass\<close>

definition isStale :: "int \<Rightarrow> memory \<Rightarrow> bool" where
  "isStale staleDate m =
     (if updatedAt m = None \<and> createdAt m = None then False
      else
        let lastActivity =
              (case updatedAt m of Some s \<Rightarrow> s * 1000 | None \<Rightarrow> the (createdAt m) * 1000)
        in lastActivity < staleDate)"

fun archiveLoop :: "'w repository \<Rightarrow> memory list \<Rightarrow> 'w \<Rightarrow> passEvent list \<times> 'w" where
  "archiveLoop repo [] w = ([], w)"
| "archiveLoop repo (m # staleMemories) w =
     (let (outcome, w1) = archiveMemory repo (memoryId m) w;
          logged = (case outcome of
                      Inl e \<Rightarrow> [LogWarn ''Failed to archive memory'' [memoryId m] (message e)]
                    | Inr u \<Rightarrow> []);
          (events, w2) = archiveLoop repo staleMemories w1
      in (ArchiveMemory (memoryId m) # logged @ events, w2))"

definition archiveStaleMemories ::
  "'w repository \<Rightarrow> 'w \<Rightarrow> (error + nat) \<times> passEvent list \<times> 'w" where
  "archiveStaleMemories repo w =
     (let staleThresholdDays = 90;
          now = nowMs repo w;
          staleDate = now - staleThresholdDays * 24 * 60 * 60 * 1000
      in case getAllMemories repo 10000 w of
           (Inl e, w1) \<Rightarrow> (Inl e, [], w1)
         | (Inr None, w1) \<Rightarrow> (Inl TypeError, [], w1)
         | (Inr (Some memories), w1) \<Rightarrow>
             let staleMemories = filter (isStale staleDate) memories;
                 (writes, w2) = archiveLoop repo staleMemories w1
             in (Inr (length staleMemories), writes, w2))"

subsection \<open>Consolidation: the orchestrator\<close>

text \<open>
  The statistics object. \<open>statsSuccess\<close> is its \<^verbatim>\<open>success\<close> field (a result
  has a field of that name too), unset until the run ends.
\<close>

record stats =
  startTime :: int
  endTime :: "int option"
  totalMemories :: nat
  pruned :: nat
  merged :: nat
  archived :: nat
  errors :: "string list"
  statsSuccess :: "bool option"

text \<open>
  How a call of \<^verbatim>\<open>consolidate\<close> ends: it returns the statistics, or it throws
  after its \<^verbatim>\<open>catch\<close> block has updated the statistics object and logged it.
\<close>

datatype completion = Returns stats | Throws error stats

text \<open>The \<^verbatim>\<open>catch\<close> block: record the message, mark the failure, rethrow.\<close>

definition catchBlock :: "stats \<Rightarrow> error \<Rightarrow> completion" where
  "catchBlock st e =
     Throws e (st\<lparr>errors := errors st @ [message e], statsSuccess := Some False\<rparr>)"

definition consolidate ::
  "arith \<Rightarrow> 'w repository \<Rightarrow> 'w \<Rightarrow> completion \<times> passEvent list \<times> 'w" where
  "consolidate ar repo w =
     (let st = \<lparr>startTime = nowMs repo w, endTime = None, totalMemories = 0, pruned = 0,
                merged = 0, archived = 0, errors = [], statsSuccess = None\<rparr>
      in case getAllMemories repo 10000 w of
           (Inl e, w1) \<Rightarrow> (catchBlock st e, [], w1)
         | (Inr None, w1) \<Rightarrow> (catchBlock st TypeError, [], w1)
         | (Inr (Some memoriesBefore), w1) \<Rightarrow>
             let st = st\<lparr>totalMemories := length memoriesBefore\<rparr>
             in case pruneLowQualityMemories repo w1 of
                  (Inl e, writes1, w2) \<Rightarrow> (catchBlock st e, writes1, w2)
                | (Inr prunedCount, writes1, w2) \<Rightarrow>
                    let st = st\<lparr>pruned := prunedCount\<rparr>
                    in case detectAndMergeDuplicates ar repo w2 of
                         (Inl e, writes2, w3) \<Rightarrow> (catchBlock st e, writes1 @ writes2, w3)
                       | (Inr mergedCount, writes2, w3) \<Rightarrow>
                           let st = st\<lparr>merged := mergedCount\<rparr>
                           in case archiveStaleMemories repo w3 of
                                (Inl e, writes3, w4) \<Rightarrow>
                                  (catchBlock st e, writes1 @ writes2 @ writes3, w4)
                              | (Inr archivedCount, writes3, w4) \<Rightarrow>
                                  (Returns (st\<lparr>archived := archivedCount,
                                              endTime := Some (nowMs repo w4),
                                              statsSuccess := Some True\<rparr>),
                                   writes1 @ writes2 @ writes3, w4))"

subsection \<open>Test-time scaling: parallel self-contrast\<close>

text \<open>
  The wrapper built for each variant. \<open>trajResult\<close> and \<open>trajSuccess\<close> are its fields
  \<^verbatim>\<open>result\<close> and \<^verbatim>\<open>success\<close>.
\<close>

record trajectory =
  index :: nat
  trajResult :: "result option"
  trajSuccess :: bool
  score :: real
  memoriesUsed :: "string list"

text \<open>
  The executor is a caller-supplied function: it receives the task and the memories
  (possibly \<^verbatim>\<open>null\<close>) and returns a result, returns nothing, or throws. Each call is
  recorded with its arguments and its outcome.
\<close>

type_synonym ('t, 'w) executor =
  "'t \<Rightarrow> memory list option \<Rightarrow> 'w \<Rightarrow> (error + result option) \<times> 'w"

type_synonym 't call = "'t \<times> memory list option \<times> (error + result option)"

text \<open>
  The round-robin \<^verbatim>\<open>forEach\<close>. For \<open>index \<ge> 0\<close> the remainder
  \<^verbatim>\<open>index % numVariants\<close> is \<open>index mod |numVariants|\<close>, and not a number when
  \<open>numVariants = 0\<close>; pushing onto a chunk that does not exist throws.
\<close>

fun distribute ::
  "int \<Rightarrow> nat \<Rightarrow> memory list \<Rightarrow> memory list list \<Rightarrow> error + memory list list" where
  "distribute numVariants idx [] memoryChunks = Inr memoryChunks"
| "distribute numVariants idx (m # rest) memoryChunks =
     (if numVariants = 0 then Inl TypeError
      else
        let k = idx mod nat \<bar>numVariants\<bar>
        in if k < length memoryChunks
           then distribute numVariants (idx + 1) rest
                  (memoryChunks[k := memoryChunks ! k @ [m]])
           else Inl TypeError)"

text \<open>
  The wrapper a variant yields from the outcome of its executor call: a throwing
  executor, and one that returns nothing (reading \<^verbatim>\<open>result.success\<close> throws
  inside the \<^verbatim>\<open>try\<close>), yield the failed wrapper.
\<close>

definition trajectoryOf :: "nat \<Rightarrow> memory list \<Rightarrow> error + result option \<Rightarrow> trajectory" where
  "trajectoryOf idx memorySet outcome =
     (case outcome of
        Inr (Some r) \<Rightarrow>
          \<lparr>index = idx, trajResult = Some r, trajSuccess = success r,
             score = scoreTrajectory (Some r), memoriesUsed = map memoryId memorySet\<rparr>
      | _ \<Rightarrow>
          \<lparr>index = idx, trajResult = None, trajSuccess = False, score = 0,
             memoriesUsed = map memoryId memorySet\<rparr>)"

text \<open>The fan-out: the executor calls are issued in the order of the variant index.\<close>

fun runTrajectories ::
  "('t, 'w) executor \<Rightarrow> 't \<Rightarrow> memory list list \<Rightarrow> nat \<Rightarrow> 'w
     \<Rightarrow> trajectory list \<times> 't call list \<times> 'w" where
  "runTrajectories executeFunction task [] idx w = ([], [], w)"
| "runTrajectories executeFunction task (memorySet # rest) idx w =
     (let (outcome, w1) = executeFunction task (Some memorySet) w;
          (ts, calls, w2) = runTrajectories executeFunction task rest (idx + 1) w1
      in (trajectoryOf idx memorySet outcome # ts, (task, Some memorySet, outcome) # calls, w2))"

text \<open>The callback of \<^verbatim>\<open>reduce\<close> and the selection of the best trajectory.\<close>

definition pickBest :: "trajectory \<Rightarrow> trajectory \<Rightarrow> trajectory" where
  "pickBest best current = (if score current > score best then current else best)"

definition bestTrajectory :: "trajectory list \<Rightarrow> trajectory option" where
  "bestTrajectory trajectories =
     (let successfulTrajectories = filter trajSuccess trajectories
      in if length successfulTrajectories > 0
         then Some (foldl pickBest (hd successfulTrajectories) (tl successfulTrajectories))
         else (case trajectories of [] \<Rightarrow> None | t # _ \<Rightarrow> Some t))"

text \<open>The single execution both strategies fall back to.\<close>

definition singleExecution ::
  "('t, 'w) executor \<Rightarrow> 't \<Rightarrow> 'w \<Rightarrow> (error + result option) \<times> 't call list \<times> 'w" where
  "singleExecution executeFunction task w =
     (let (outcome, w1) = executeFunction task (Some []) w
      in (outcome, [(task, Some [], outcome)], w1))"

text \<open>
  \<^verbatim>\<open>parallelScaling\<close>. \<open>enabled\<close> is \<^verbatim>\<open>config.MATTS_PARALLEL_ENABLED\<close>;
  \<open>embedQuery\<close> builds the query text of the task and embeds it.
\<close>

definition parallelScaling ::
  "bool \<Rightarrow> 'w repository \<Rightarrow> ('t \<Rightarrow> 'w \<Rightarrow> (error + real list) \<times> 'w) \<Rightarrow> 't
     \<Rightarrow> ('t, 'w) executor \<Rightarrow> int \<Rightarrow> 'w \<Rightarrow> (error + result option) \<times> 't call list \<times> 'w"
  where
  "parallelScaling enabled repo embedQuery task executeFunction numVariants w =
     (if \<not> enabled then singleExecution executeFunction task w
      else
        case embedQuery task w of
          (Inl e, w1) \<Rightarrow> (Inl e, [], w1)
        | (Inr queryEmbedding, w1) \<Rightarrow>
            (case retrieveMemories repo queryEmbedding (numVariants * 3) 0.5 w1 of
               (Inl e, w2) \<Rightarrow> (Inl e, [], w2)
             | (Inr None, w2) \<Rightarrow> singleExecution executeFunction task w2
             | (Inr (Some memories), w2) \<Rightarrow>
                 if length memories = 0 then singleExecution executeFunction task w2
                 else
                   case distribute numVariants 0 memories (replicate (nat numVariants) []) of
                     Inl e \<Rightarrow> (Inl e, [], w2)
                   | Inr memoryChunks \<Rightarrow>
                       let (trajectories, calls, w3) =
                             runTrajectories executeFunction task memoryChunks 0 w2
                       in case bestTrajectory trajectories of
                            None \<Rightarrow> (Inl TypeError, calls, w3)
                          | Some best \<Rightarrow>
                              if trajSuccess best \<and> length (memoriesUsed best) > 0
                              then
                                case updateMemoryStats repo (memoriesUsed best) True w3 of
                                  (Inl e, w4) \<Rightarrow> (Inl e, calls, w4)
                                | (Inr u, w4) \<Rightarrow> (Inr (trajResult best), calls, w4)
                              else (Inr (trajResult best), calls, w3)))"

subsection \<open>Test-time scaling: sequential self-refinement\<close>











subsection \<open>Extraction of memories from a build result\<close>

record buildResult =
  status :: string
  branch :: string
  duration :: "string option"
  recentCommits :: "string list option"
  errorLogs :: "string option"
  buildId :: string

text \<open>A memory item as the text generator proposes it.\<close>

record candidate =
  title :: string
  description :: string
  content :: string
  category :: string

text \<open>An invocation of an outside capability by the build memory service.\<close>

datatype serviceCall =
    GetModelName
  | GenerateContent string string
  | EmbedContent string
  | AddMemory candidate string

text \<open>
  The collaborators of \<^verbatim>\<open>BuildMemoryService\<close>: the configured model name, the
  text generator, the embedder, the validator and the repository's insertion.
  \<open>renderPrompt\<close> is the prompt template of \<^verbatim>\<open>extractFromBuildFailure\<close> and
  \<open>parseMemories\<close> is \<^verbatim>\<open>JSON.parse(this._extractJSON(text))\<close>, which throws on
  malformed text.
\<close>

record 'w buildServices =
  getGeminiModelName :: "'w \<Rightarrow> (error + string) \<times> 'w"
  generateContent :: "string \<Rightarrow> string \<Rightarrow> 'w \<Rightarrow> (error + string) \<times> 'w"
  renderPrompt :: "buildResult \<Rightarrow> string"
  parseMemories :: "string \<Rightarrow> error + candidate list"
  validateMemory :: "candidate \<Rightarrow> string \<Rightarrow> bool"
  embedContent :: "string \<Rightarrow> 'w \<Rightarrow> (error + real list) \<times> 'w"
  validateEmbedding :: "real list \<Rightarrow> bool"
  addMemory :: "candidate \<Rightarrow> string \<Rightarrow> real list \<Rightarrow> 'w \<Rightarrow> (error + unit) \<times> 'w"

text \<open>\<^verbatim>\<open>_extractMemories\<close>\<close>

definition extractMemories ::
  "'w buildServices \<Rightarrow> string \<Rightarrow> 'w \<Rightarrow> (error + candidate list) \<times> serviceCall list \<times> 'w"
  where
  "extractMemories svc prompt w =
     (case getGeminiModelName svc w of
        (Inl e, w1) \<Rightarrow> (Inl e, [GetModelName], w1)
      | (Inr modelName, w1) \<Rightarrow>
          (case generateContent svc modelName prompt w1 of
             (Inl e, w2) \<Rightarrow> (Inl e, [GetModelName, GenerateContent modelName prompt], w2)
           | (Inr responseText, w2) \<Rightarrow>
               (parseMemories svc responseText,
                [GetModelName, GenerateContent modelName prompt], w2)))"

text \<open>\<^verbatim>\<open>_storeMemory\<close>: every failure inside is caught and logged.\<close>

definition storeMemory ::
  "'w buildServices \<Rightarrow> candidate \<Rightarrow> string \<Rightarrow> 'w \<Rightarrow> serviceCall list \<times> 'w" where
  "storeMemory svc memory source w =
     (if \<not> validateMemory svc memory source then ([], w)
      else
        let embeddingText = title memory @ ''. '' @ description memory @ ''. '' @ content memory
        in case embedContent svc embeddingText w of
             (Inl e, w1) \<Rightarrow> ([EmbedContent embeddingText], w1)
           | (Inr emb, w1) \<Rightarrow>
               if \<not> validateEmbedding svc emb then ([EmbedContent embeddingText], w1)
               else
                 let (outcome, w2) = addMemory svc memory source emb w1
                 in ([EmbedContent embeddingText, AddMemory memory source], w2))"

fun storeLoop ::
  "'w buildServices \<Rightarrow> candidate list \<Rightarrow> string \<Rightarrow> 'w \<Rightarrow> serviceCall list \<times> 'w" where
  "storeLoop svc [] source w = ([], w)"
| "storeLoop svc (memory # rest) source w =
     (let (calls1, w1) = storeMemory svc memory source w;
          (calls2, w2) = storeLoop svc rest source w1
      in (calls1 @ calls2, w2))"

text \<open>
  \<^verbatim>\<open>extractFromBuildFailure\<close>: the returned list, the capability calls made, the
  next world.
\<close>

definition extractFromBuildFailure ::
  "'w buildServices \<Rightarrow> buildResult \<Rightarrow> 'w \<Rightarrow> candidate list \<times> serviceCall list \<times> 'w" where
  "extractFromBuildFailure svc build w =
     (if status build = ''SUCCESS'' then ([], [], w)
      else
        case extractMemories svc (renderPrompt svc build) w of
          (Inl e, calls, w1) \<Rightarrow> ([], calls, w1)
        | (Inr memories, calls, w1) \<Rightarrow>
            let (calls2, w2) = storeLoop svc memories ''build_failure'' w1
            in (memories, calls @ calls2, w2))"

subsection \<open>Test doubles\<close>

text \<open>
  The inputs of the repository's test suite: a memory with the fields a test sets, and
  the mocked memory model, whose scan resolves or rejects with a fixed value and whose
  writes all resolve or all reject. The world of the mocks is an integer, which the
  memory model reads as the clock and leaves as it is.
\<close>

definition testMemory :: "string \<Rightarrow> jsval \<Rightarrow> int \<Rightarrow> real option \<Rightarrow> memory" where
  "testMemory i emb n rate =
     \<lparr>memoryId = i, embedding = emb, timesRetrieved = Some n, timesUsedInSuccess = None,
        timesUsedInFailure = None,
        successRate = (case rate of None \<Rightarrow> RateMissing | Some r \<Rightarrow> Rate r),
        createdAt = None, updatedAt = None\<rparr>"

text \<open>
  Arithmetic without rounding. Where the operands are finite doubles and the exact
  result is a double, it returns what double precision returns; it serves where a
  concrete arithmetic is needed.
\<close>

definition exactArith :: arith where
  "exactArith =
     \<lparr>fadd = (\<lambda>a b. case a of Finite x \<Rightarrow> (case b of Finite y \<Rightarrow> Finite (x + y) | _ \<Rightarrow> NaN)
                      | _ \<Rightarrow> NaN),
        fmul = (\<lambda>a b. case a of Finite x \<Rightarrow> (case b of Finite y \<Rightarrow> Finite (x * y) | _ \<Rightarrow> NaN)
                      | _ \<Rightarrow> NaN),
        fdiv = (\<lambda>a b. case a of Finite x \<Rightarrow>
                        (case b of Finite y \<Rightarrow> if y = 0 then NaN else Finite (x / y)
                         | _ \<Rightarrow> NaN)
                      | _ \<Rightarrow> NaN),
        fsqrt = (\<lambda>a. case a of Finite x \<Rightarrow> if x < 0 then NaN else Finite (sqrt x)
                     | _ \<Rightarrow> NaN)\<rparr>"




definition mockMemoryModel ::
  "(error + memory list option) \<Rightarrow> (error + unit) \<Rightarrow> int repository" where
  "mockMemoryModel scan writeOutcome =
     \<lparr>getAllMemories = (\<lambda>limit w. (scan, w)),
        updateMemory = (\<lambda>i p w. (writeOutcome, w)),
        deleteMemory = (\<lambda>i w. (writeOutcome, w)),
        archiveMemory = (\<lambda>i w. (writeOutcome, w)),
        retrieveMemories = (\<lambda>q k r w. (scan, w)),
        updateMemoryStats = (\<lambda>ids ok w. (Inr (), w)),
        nowMs = (\<lambda>w. w)\<rparr>"

text \<open>
  Six records for the prune pass: A, B and C are the records of the prune scenario of
  the specification, D and F meet the rule as well, and E has a null success rate.
\<close>

definition pruneCandidates :: "memory list" where
  "pruneCandidates =
     [testMemory ''A'' Undefined 10 (Some 0.1), testMemory ''B'' Undefined 10 (Some 0.5),
      testMemory ''C'' Undefined 5 (Some 0), testMemory ''D'' Undefined 12 (Some 0.2),
      (testMemory ''E'' Undefined 10 None)\<lparr>successRate := RateNull\<rparr>,
      testMemory ''F'' Undefined 30 (Some 0.25)]"



text \<open>
  A memory model that keeps in the world the writes it has received, in order (as a
  mock function keeps its calls), and that rejects every write addressed to one of the
  identifiers in \<open>failing\<close>.
\<close>

definition recordingModel :: "memory list \<Rightarrow> string list \<Rightarrow> passEvent list repository" where
  "recordingModel memories failing =
     \<lparr>getAllMemories = (\<lambda>limit w. (Inr (Some memories), w)),
        updateMemory = (\<lambda>i p w. (if i \<in> set failing then Inl (Thrown ''Update failed'')
                                   else Inr (), w @ [UpdateMemory i p])),
        deleteMemory = (\<lambda>i w. (if i \<in> set failing then Inl (Thrown ''Delete failed'')
                                 else Inr (), w @ [DeleteMemory i])),
        archiveMemory = (\<lambda>i w. (if i \<in> set failing then Inl (Thrown ''Archive failed'')
                                  else Inr (), w @ [ArchiveMemory i])),
        retrieveMemories = (\<lambda>q k r w. (Inr (Some memories), w)),
        updateMemoryStats = (\<lambda>ids ok w. (Inr (), w)),
        nowMs = (\<lambda>w. 0)\<rparr>"

text \<open>
  The mocked executor of the test-time-scaling tests: it answers its calls in turn from a
  list of outcomes and counts them in the world. \<open>testResult\<close> is a successful result
  with the fields a test sets; \<open>selectionOutcomes\<close> are the three results of the test
  of the selection by score.
\<close>

definition mockExecute :: "(error + result option) list \<Rightarrow> (string, int) executor" where
  "mockExecute outcomes task memories w =
     (if outcomes = [] then Inr None else outcomes ! (nat w mod length outcomes), w + 1)"

definition mockEmbedQuery :: "string \<Rightarrow> int \<Rightarrow> (error + real list) \<times> int" where
  "mockEmbedQuery task w = (Inr [0.5], w)"

definition testResult :: "real option \<Rightarrow> real option \<Rightarrow> string list option \<Rightarrow> string \<Rightarrow> result" where
  "testResult st tm out label =
     \<lparr>success = True, steps = st, executionTime = tm, outputData = out, htmlReport = None,
        payload = label\<rparr>"

definition threeMemories :: "memory list" where
  "threeMemories =
     [testMemory ''mem-1'' Undefined 0 None, testMemory ''mem-2'' Undefined 0 None,
      testMemory ''mem-3'' Undefined 0 None]"

definition selectionOutcomes :: "(error + result option) list" where
  "selectionOutcomes =
     [Inr (Some (testResult None (Some 6000) None ''trajectory-0.5'')),
      Inr (Some (testResult (Some 5) (Some 3000)
                   (Some [''a'', ''b'', ''c'', ''d'', ''e'', ''f'']) ''trajectory-0.9'')),
      Inr (Some (testResult None (Some 3000) None ''trajectory-0.6''))]"

text \<open>
  The mocked memory model with a statistics update that rejects, as a store that has
  become unavailable would.
\<close>

definition failingStatsModel :: "memory list \<Rightarrow> int repository" where
  "failingStatsModel memories =
     (mockMemoryModel (Inr (Some memories)) (Inr ()))
       \<lparr>updateMemoryStats := (\<lambda>ids ok w. (Inl (Thrown ''Stats failed''), w))\<rparr>"



text \<open>The mocked collaborators of the build memory service; the world counts their calls.\<close>

definition mockBuildServices :: "int buildServices" where
  "mockBuildServices =
     \<lparr>getGeminiModelName = (\<lambda>w. (Inr ''gemini'', w + 1)),
        generateContent = (\<lambda>modelName prompt w. (Inr ''[]'', w + 1)),
        renderPrompt = (\<lambda>build. ''Status: '' @ status build),
        parseMemories = (\<lambda>responseText. Inr []),
        validateMemory = (\<lambda>memory source. True),
        embedContent = (\<lambda>embeddingText w. (Inr [], w + 1)),
        validateEmbedding = (\<lambda>emb. True),
        addMemory = (\<lambda>memory source emb w. (Inr (), w + 1))\<rparr>"

section \<open>Properties\<close>

subsection \<open>Trajectory scorer\<close>

lemma scoreTrajectory_range: "0 \<le> scoreTrajectory res \<and> scoreTrajectory res \<le> 1"
  by (cases res) (auto simp: scoreTrajectory_def Let_def)

text \<open>
  C7 (as stated it fails): a successful result whose \<open>steps\<close> field is present with the
  value 0, which is below 10, scores 0.5 and not 0.7, because the guard on the field is
  a truthiness test that 0 does not pass.
\<close>

theorem scoreTrajectory_zero_steps_counterexample:
  "scoreTrajectory (Some \<lparr>success = True, steps = Some 0, executionTime = None,
       outputData = None, htmlReport = None, payload = ''r''\<rparr>) = 0.5
   \<and> score_spec (Some \<lparr>success = True, steps = Some 0, executionTime = None,
       outputData = None, htmlReport = None, payload = ''r''\<rparr>) = 0.7"
  by (simp add: scoreTrajectory_def score_spec_def truthyNum_def)

text \<open>
  C7 (amended): the score is 0 for a null result and for \<open>success = false\<close>; it always
  lies in [0, 1]; and it is the specified sum (0.5, plus 0.2 for \<open>steps\<close> below 10, plus
  0.1 for \<open>executionTime\<close> below 5000, plus 0.1 for \<open>outputData\<close> with more than 5
  keys, plus 0.1 for \<open>htmlReport\<close> longer than 1000, clamped to 1) once a \<open>steps\<close> or
  \<open>executionTime\<close> field that holds 0 is counted as absent.
\<close>

theorem scoreTrajectory_amended:
  "scoreTrajectory None = 0
   \<and> (\<not> success r \<longrightarrow> scoreTrajectory (Some r) = 0)
   \<and> 0 \<le> scoreTrajectory res \<and> scoreTrajectory res \<le> 1
   \<and> scoreTrajectory (Some r) =
       score_spec (Some (r\<lparr>steps := (if steps r = Some 0 then None else steps r),
                            executionTime := (if executionTime r = Some 0 then None
                                              else executionTime r)\<rparr>))"
proof -
  have a: "scoreTrajectory None = 0"
    by (simp add: scoreTrajectory_def)
  have b: "\<not> success r \<longrightarrow> scoreTrajectory (Some r) = 0"
    by (simp add: scoreTrajectory_def)
  have c: "scoreTrajectory (Some r) =
       score_spec (Some (r\<lparr>steps := (if steps r = Some 0 then None else steps r),
                            executionTime := (if executionTime r = Some 0 then None
                                              else executionTime r)\<rparr>))"
    by (cases "steps r"; cases "executionTime r"; cases "outputData r"; cases "htmlReport r")
       (auto simp: scoreTrajectory_def score_spec_def truthyNum_def Let_def)
  from a b c scoreTrajectory_range [of res] show ?thesis by blast
qed

theorem scoreTrajectory_amended_witness:
  "scoreTrajectory (Some \<lparr>success = True, steps = Some 5, executionTime = Some 0,
       outputData = Some [''a'', ''b'', ''c'', ''d'', ''e'', ''f''], htmlReport = None,
       payload = ''trajectory''\<rparr>) = 0.8
   \<and> \<not> success \<lparr>success = False, steps = Some 5, executionTime = Some 3000,
       outputData = None, htmlReport = None, payload = ''failed''\<rparr>
   \<and> scoreTrajectory (Some \<lparr>success = False, steps = Some 5, executionTime = Some 3000,
       outputData = None, htmlReport = None, payload = ''failed''\<rparr>) = 0"
  using scoreTrajectory_amended
    [of "\<lparr>success = True, steps = Some 5, executionTime = Some 0,
       outputData = Some [''a'', ''b'', ''c'', ''d'', ''e'', ''f''], htmlReport = None,
       payload = ''trajectory''\<rparr>" None]
    scoreTrajectory_amended
    [of "\<lparr>success = False, steps = Some 5, executionTime = Some 3000,
       outputData = None, htmlReport = None, payload = ''failed''\<rparr>" None]
  by (simp add: score_spec_def)

subsection \<open>Cosine similarity\<close>



















lemma sqrt_25 [simp]: "sqrt 25 = 5"
  using real_sqrt_abs [of 5] by simp








subsection \<open>Consolidation: prune pass\<close>

lemma lowQuality_iff: "lowQuality m \<longleftrightarrow> prune_spec m"
  by (cases "timesRetrieved m"; cases "successRate m")
     (simp_all add: lowQuality_def prune_spec_def geCount_def greaterNum_def)

lemma upt_Suc_shift: "[0..<Suc n] = 0 # map Suc [0..<n]"
  by (simp only: map_Suc_upt upt_conv_Cons [OF zero_less_Suc])

lemma pruneLoop_world:
  "snd (pruneLoop repo ms w) = foldl (\<lambda>s m. snd (deleteMemory repo (memoryId m) s)) w ms"
  by (induction ms arbitrary: w) (simp_all add: split_beta Let_def)

lemma pruneLoop_events:
  "fst (pruneLoop repo ms w) =
     concat (map (\<lambda>k.
         DeleteMemory (memoryId (ms ! k))
         # (case fst (deleteMemory repo (memoryId (ms ! k))
                       (foldl (\<lambda>s m. snd (deleteMemory repo (memoryId m) s)) w (take k ms))) of
              Inl e \<Rightarrow> [LogWarn ''Failed to prune memory'' [memoryId (ms ! k)] (message e)]
            | Inr u \<Rightarrow> []))
       [0..<length ms])"
proof (induction ms arbitrary: w)
  case Nil
  show ?case by simp
next
  case (Cons m ms)
  show ?case
    by (simp add: split_beta Let_def upt_Suc_shift Cons.IH comp_def del: upt_Suc
        cong: sum.case_cong)
qed

text \<open>
  C3: when the scan succeeds, the prune pass calls the deletion of the repository for
  exactly the scanned records with \<open>timesRetrieved \<ge> 10\<close> and a \<open>successRate\<close> that is
  a number below 0.3, once each and in scan order, so that the world it leaves is the
  world of the scan after those deletions; a deletion that throws is followed by one
  logged warning that names the record and the error, and the pass goes on with the next
  record; the count returned is the number of records that meet the rule, whether their
  deletion succeeded or not.
\<close>

theorem pruneLowQualityMemories_predicate:
  assumes "getAllMemories repo 10000 w = (Inr (Some memories), w1)"
  shows "fst (pruneLowQualityMemories repo w) = Inr (length (filter prune_spec memories))
         \<and> snd (snd (pruneLowQualityMemories repo w)) =
             foldl (\<lambda>s m. snd (deleteMemory repo (memoryId m) s)) w1
               (filter prune_spec memories)
         \<and> fst (snd (pruneLowQualityMemories repo w)) =
             concat (map (\<lambda>k.
                 DeleteMemory (memoryId (filter prune_spec memories ! k))
                 # (case fst (deleteMemory repo (memoryId (filter prune_spec memories ! k))
                               (foldl (\<lambda>s m. snd (deleteMemory repo (memoryId m) s)) w1
                                  (take k (filter prune_spec memories)))) of
                      Inl e \<Rightarrow> [LogWarn ''Failed to prune memory''
                                  [memoryId (filter prune_spec memories ! k)] (message e)]
                    | Inr u \<Rightarrow> []))
               [0..<length (filter prune_spec memories)])
         \<and> (DeleteMemory i \<in> set (fst (snd (pruneLowQualityMemories repo w)))
               \<longleftrightarrow> (\<exists>m\<in>set memories. memoryId m = i \<and> prune_spec m))"
proof -
  let ?toPrune = "filter prune_spec memories"
  have f: "filter lowQuality memories = ?toPrune"
    by (rule filter_cong) (simp_all add: lowQuality_iff)
  have p: "pruneLowQualityMemories repo w =
      (Inr (length ?toPrune), fst (pruneLoop repo ?toPrune w1), snd (pruneLoop repo ?toPrune w1))"
    using assms by (simp add: pruneLowQualityMemories_def split_beta Let_def f)
  have ev: "fst (snd (pruneLowQualityMemories repo w)) = fst (pruneLoop repo ?toPrune w1)"
    by (simp add: p)
  have mem: "\<And>i. DeleteMemory i \<in> set (fst (pruneLoop repo ?toPrune w1))
      \<longleftrightarrow> (\<exists>m'\<in>set ?toPrune. memoryId m' = i)"
  proof -
    fix i
    have "\<And>ms s. DeleteMemory i \<in> set (fst (pruneLoop repo ms s))
        \<longleftrightarrow> (\<exists>m'\<in>set ms. memoryId m' = i)"
    proof -
      fix ms s
      show "DeleteMemory i \<in> set (fst (pruneLoop repo ms s))
        \<longleftrightarrow> (\<exists>m'\<in>set ms. memoryId m' = i)"
        by (induction ms arbitrary: s)
           (auto simp: split_beta Let_def split: sum.splits)
    qed
    then show "DeleteMemory i \<in> set (fst (pruneLoop repo ?toPrune w1))
      \<longleftrightarrow> (\<exists>m'\<in>set ?toPrune. memoryId m' = i)" .
  qed
  have d: "DeleteMemory i \<in> set (fst (snd (pruneLowQualityMemories repo w)))
      \<longleftrightarrow> (\<exists>m\<in>set memories. memoryId m = i \<and> prune_spec m)"
    unfolding ev mem by auto
  have a: "fst (pruneLowQualityMemories repo w) = Inr (length ?toPrune)"
    by (simp add: p)
  have b: "snd (snd (pruneLowQualityMemories repo w)) =
      foldl (\<lambda>s m. snd (deleteMemory repo (memoryId m) s)) w1 ?toPrune"
    by (simp add: p pruneLoop_world)
  have c: "fst (snd (pruneLowQualityMemories repo w)) =
             concat (map (\<lambda>k.
                 DeleteMemory (memoryId (?toPrune ! k))
                 # (case fst (deleteMemory repo (memoryId (?toPrune ! k))
                               (foldl (\<lambda>s m. snd (deleteMemory repo (memoryId m) s)) w1
                                  (take k ?toPrune))) of
                      Inl e \<Rightarrow> [LogWarn ''Failed to prune memory''
                                  [memoryId (?toPrune ! k)] (message e)]
                    | Inr u \<Rightarrow> []))
               [0..<length ?toPrune])"
    unfolding ev by (rule pruneLoop_events)
  from a b c d show ?thesis by blast
qed

theorem pruneLowQualityMemories_predicate_witness:
  "getAllMemories (recordingModel pruneCandidates [''D'']) 10000 []
     = (Inr (Some pruneCandidates), [])
   \<and> filter prune_spec pruneCandidates
     = [testMemory ''A'' Undefined 10 (Some 0.1), testMemory ''D'' Undefined 12 (Some 0.2),
        testMemory ''F'' Undefined 30 (Some 0.25)]
   \<and> pruneLowQualityMemories (recordingModel pruneCandidates [''D'']) []
     = (Inr 3,
        [DeleteMemory ''A'', DeleteMemory ''D'',
         LogWarn ''Failed to prune memory'' [''D''] ''Delete failed'', DeleteMemory ''F''],
        [DeleteMemory ''A'', DeleteMemory ''D'', DeleteMemory ''F''])"
proof -
  let ?repo = "recordingModel pruneCandidates [''D'']"
  let ?P = "pruneLowQualityMemories ?repo []"
  have h: "getAllMemories ?repo 10000 [] = (Inr (Some pruneCandidates), [])"
    by (simp add: recordingModel_def)
  have f: "filter prune_spec pruneCandidates
     = [testMemory ''A'' Undefined 10 (Some 0.1), testMemory ''D'' Undefined 12 (Some 0.2),
        testMemory ''F'' Undefined 30 (Some 0.25)]"
    by (simp add: pruneCandidates_def prune_spec_def testMemory_def)
  have n: "[0..<3] = [0, Suc 0, Suc (Suc 0)]"
    by (simp add: upt_rec)
  from pruneLowQualityMemories_predicate [OF h, of "''A''"]
  have "fst ?P = Inr 3
    \<and> snd (snd ?P) = [DeleteMemory ''A'', DeleteMemory ''D'', DeleteMemory ''F'']
    \<and> fst (snd ?P) = [DeleteMemory ''A'', DeleteMemory ''D'',
         LogWarn ''Failed to prune memory'' [''D''] ''Delete failed'', DeleteMemory ''F'']"
    unfolding f
    by (simp add: n recordingModel_def testMemory_def)
  then have "?P = (Inr 3,
        [DeleteMemory ''A'', DeleteMemory ''D'',
         LogWarn ''Failed to prune memory'' [''D''] ''Delete failed'', DeleteMemory ''F''],
        [DeleteMemory ''A'', DeleteMemory ''D'', DeleteMemory ''F''])"
    by (simp add: prod_eq_iff)
  with h f show ?thesis by blast
qed

subsection \<open>Consolidation: merge pass\<close>

text \<open>
  C4 (as stated it fails): (1) two duplicates with equal success rate and equal
  retrieval count, the second one created earlier: the record kept is the first of the
  pair, the newer one, because \<open>createdAt\<close> is never compared; (2) a record with a null
  rate is kept against one with the rate 0 that was retrieved less often, because null
  compares as 0; (3) a record without a \<open>successRate\<close> field is kept against one with
  the rate 0.8 that was retrieved less often, because a missing rate compares as
  not-a-number.
\<close>

theorem keepAndRemove_createdAt_counterexample:
  "createdAt \<lparr>memoryId = ''2'', embedding = Arr [1], timesRetrieved = Some 5,
        timesUsedInSuccess = None, timesUsedInFailure = None, successRate = Rate 0.5,
        createdAt = Some 100, updatedAt = None\<rparr>
     = Some 100
   \<and> createdAt \<lparr>memoryId = ''1'', embedding = Arr [1], timesRetrieved = Some 5,
        timesUsedInSuccess = None, timesUsedInFailure = None, successRate = Rate 0.5,
        createdAt = Some 200, updatedAt = None\<rparr>
     = Some 200
   \<and> memoryId (fst (keepAndRemove
      \<lparr>memoryId = ''1'', embedding = Arr [1], timesRetrieved = Some 5,
        timesUsedInSuccess = None, timesUsedInFailure = None, successRate = Rate 0.5,
        createdAt = Some 200, updatedAt = None\<rparr>
      \<lparr>memoryId = ''2'', embedding = Arr [1], timesRetrieved = Some 5,
        timesUsedInSuccess = None, timesUsedInFailure = None, successRate = Rate 0.5,
        createdAt = Some 100, updatedAt = None\<rparr>)) = ''1''
   \<and> memoryId (fst (keepAndRemove
      \<lparr>memoryId = ''3'', embedding = Arr [1], timesRetrieved = Some 10,
        timesUsedInSuccess = None, timesUsedInFailure = None, successRate = RateNull,
        createdAt = None, updatedAt = None\<rparr>
      \<lparr>memoryId = ''4'', embedding = Arr [1], timesRetrieved = Some 5,
        timesUsedInSuccess = None, timesUsedInFailure = None, successRate = Rate 0,
        createdAt = None, updatedAt = None\<rparr>)) = ''3''
   \<and> memoryId (fst (keepAndRemove
      \<lparr>memoryId = ''5'', embedding = Arr [1], timesRetrieved = Some 10,
        timesUsedInSuccess = None, timesUsedInFailure = None, successRate = RateMissing,
        createdAt = None, updatedAt = None\<rparr>
      \<lparr>memoryId = ''6'', embedding = Arr [1], timesRetrieved = Some 5,
        timesUsedInSuccess = None, timesUsedInFailure = None, successRate = Rate 0.8,
        createdAt = None, updatedAt = None\<rparr>)) = ''5''"
  by (simp add: keepAndRemove_def greaterNum_def geCount_def)

text \<open>
  C4 (amended): of two success rates that are numbers, the record with the higher one
  is kept; a record with a null rate loses to one with a positive rate; when the rates
  are equal as numbers (null counting as 0), or one of them is missing, the record
  retrieved more often is kept, with equal retrieval counts the first record of the
  pair (the earlier one in the scan), and with a retrieval count missing the second
  record of the pair. \<open>createdAt\<close> plays no part.
\<close>

theorem keepAndRemove_amended:
  "(successRate m1 = Rate r1 \<and> successRate m2 = Rate r2 \<and> r1 > r2
      \<longrightarrow> keepAndRemove m1 m2 = (m1, m2) \<and> keepAndRemove m2 m1 = (m1, m2))
   \<and> (successRate m1 = Rate r1 \<and> r1 > 0 \<and> successRate m2 = RateNull
      \<longrightarrow> keepAndRemove m1 m2 = (m1, m2) \<and> keepAndRemove m2 m1 = (m1, m2))
   \<and> ((rateNumber (successRate m1) = rateNumber (successRate m2)
         \<or> successRate m1 = RateMissing \<or> successRate m2 = RateMissing)
        \<and> timesRetrieved m1 = Some t1 \<and> timesRetrieved m2 = Some t2 \<and> t1 > t2
      \<longrightarrow> keepAndRemove m1 m2 = (m1, m2) \<and> keepAndRemove m2 m1 = (m1, m2))
   \<and> ((rateNumber (successRate m1) = rateNumber (successRate m2)
         \<or> successRate m1 = RateMissing \<or> successRate m2 = RateMissing)
        \<and> timesRetrieved m1 = Some t1 \<and> timesRetrieved m2 = Some t1
      \<longrightarrow> keepAndRemove m1 m2 = (m1, m2))
   \<and> ((rateNumber (successRate m1) = rateNumber (successRate m2)
         \<or> successRate m1 = RateMissing \<or> successRate m2 = RateMissing)
        \<and> (timesRetrieved m1 = None \<or> timesRetrieved m2 = None)
      \<longrightarrow> keepAndRemove m1 m2 = (m2, m1))"
proof -
  have eq: "\<And>a b. rateNumber a = rateNumber b \<or> a = RateMissing \<or> b = RateMissing
      \<Longrightarrow> \<not> greaterNum (rateNumber a) (rateNumber b) \<and> \<not> greaterNum (rateNumber b) (rateNumber a)"
    by (auto simp: greaterNum_def split: option.splits)
  have a: "successRate m1 = Rate r1 \<and> successRate m2 = Rate r2 \<and> r1 > r2
      \<longrightarrow> keepAndRemove m1 m2 = (m1, m2) \<and> keepAndRemove m2 m1 = (m1, m2)"
    by (simp add: keepAndRemove_def greaterNum_def)
  have b: "successRate m1 = Rate r1 \<and> r1 > 0 \<and> successRate m2 = RateNull
      \<longrightarrow> keepAndRemove m1 m2 = (m1, m2) \<and> keepAndRemove m2 m1 = (m1, m2)"
    by (simp add: keepAndRemove_def greaterNum_def)
  have c: "(rateNumber (successRate m1) = rateNumber (successRate m2)
         \<or> successRate m1 = RateMissing \<or> successRate m2 = RateMissing)
        \<and> timesRetrieved m1 = Some t1 \<and> timesRetrieved m2 = Some t2 \<and> t1 > t2
      \<longrightarrow> keepAndRemove m1 m2 = (m1, m2) \<and> keepAndRemove m2 m1 = (m1, m2)"
    using eq [of "successRate m1" "successRate m2"]
    by (auto simp: keepAndRemove_def geCount_def)
  have d: "(rateNumber (successRate m1) = rateNumber (successRate m2)
         \<or> successRate m1 = RateMissing \<or> successRate m2 = RateMissing)
        \<and> timesRetrieved m1 = Some t1 \<and> timesRetrieved m2 = Some t1
      \<longrightarrow> keepAndRemove m1 m2 = (m1, m2)"
    using eq [of "successRate m1" "successRate m2"]
    by (auto simp: keepAndRemove_def geCount_def)
  have e: "(rateNumber (successRate m1) = rateNumber (successRate m2)
         \<or> successRate m1 = RateMissing \<or> successRate m2 = RateMissing)
        \<and> (timesRetrieved m1 = None \<or> timesRetrieved m2 = None)
      \<longrightarrow> keepAndRemove m1 m2 = (m2, m1)"
    using eq [of "successRate m1" "successRate m2"]
    by (auto simp: keepAndRemove_def geCount_def split: option.splits)
  from a b c d e show ?thesis by blast
qed

theorem keepAndRemove_amended_witness:
  "successRate (testMemory ''1'' (Arr [1]) 10 (Some 0.8)) = Rate 0.8
   \<and> successRate (testMemory ''2'' (Arr [1]) 5 (Some 0.7)) = Rate 0.7 \<and> (0.8::real) > 0.7
   \<and> keepAndRemove (testMemory ''2'' (Arr [1]) 5 (Some 0.7))
         (testMemory ''1'' (Arr [1]) 10 (Some 0.8))
       = (testMemory ''1'' (Arr [1]) 10 (Some 0.8), testMemory ''2'' (Arr [1]) 5 (Some 0.7))
   \<and> successRate ((testMemory ''3'' (Arr [1]) 12 None)\<lparr>successRate := RateNull\<rparr>) = RateNull
   \<and> keepAndRemove ((testMemory ''3'' (Arr [1]) 12 None)\<lparr>successRate := RateNull\<rparr>)
         (testMemory ''1'' (Arr [1]) 10 (Some 0.8))
       = (testMemory ''1'' (Arr [1]) 10 (Some 0.8),
          (testMemory ''3'' (Arr [1]) 12 None)\<lparr>successRate := RateNull\<rparr>)
   \<and> successRate (testMemory ''4'' (Arr [1]) 12 None) = RateMissing
   \<and> timesRetrieved (testMemory ''4'' (Arr [1]) 12 None) = Some 12
   \<and> timesRetrieved (testMemory ''1'' (Arr [1]) 10 (Some 0.8)) = Some 10
   \<and> keepAndRemove (testMemory ''1'' (Arr [1]) 10 (Some 0.8)) (testMemory ''4'' (Arr [1]) 12 None)
       = (testMemory ''4'' (Arr [1]) 12 None, testMemory ''1'' (Arr [1]) 10 (Some 0.8))
   \<and> rateNumber (successRate (testMemory ''5'' (Arr [1]) 10 (Some 0.8)))
       = rateNumber (successRate (testMemory ''1'' (Arr [1]) 10 (Some 0.8)))
   \<and> keepAndRemove (testMemory ''5'' (Arr [1]) 10 (Some 0.8))
         (testMemory ''1'' (Arr [1]) 10 (Some 0.8))
       = (testMemory ''5'' (Arr [1]) 10 (Some 0.8), testMemory ''1'' (Arr [1]) 10 (Some 0.8))
   \<and> timesRetrieved ((testMemory ''6'' (Arr [1]) 0 (Some 0.8))\<lparr>timesRetrieved := None\<rparr>) = None
   \<and> keepAndRemove ((testMemory ''6'' (Arr [1]) 0 (Some 0.8))\<lparr>timesRetrieved := None\<rparr>)
         (testMemory ''1'' (Arr [1]) 10 (Some 0.8))
       = (testMemory ''1'' (Arr [1]) 10 (Some 0.8),
          (testMemory ''6'' (Arr [1]) 0 (Some 0.8))\<lparr>timesRetrieved := None\<rparr>)"
  using keepAndRemove_amended [of "testMemory ''1'' (Arr [1]) 10 (Some 0.8)" "0.8"
          "testMemory ''2'' (Arr [1]) 5 (Some 0.7)" "0.7" 0 0]
    keepAndRemove_amended [of "testMemory ''1'' (Arr [1]) 10 (Some 0.8)" "0.8"
          "(testMemory ''3'' (Arr [1]) 12 None)\<lparr>successRate := RateNull\<rparr>" 0 0 0]
    keepAndRemove_amended [of "testMemory ''4'' (Arr [1]) 12 None" 0
          "testMemory ''1'' (Arr [1]) 10 (Some 0.8)" 0 12 10]
    keepAndRemove_amended [of "testMemory ''5'' (Arr [1]) 10 (Some 0.8)" 0
          "testMemory ''1'' (Arr [1]) 10 (Some 0.8)" 0 10 0]
    keepAndRemove_amended [of "(testMemory ''6'' (Arr [1]) 0 (Some 0.8))\<lparr>timesRetrieved := None\<rparr>" 0
          "testMemory ''1'' (Arr [1]) 10 (Some 0.8)" 0 0 0]
  by (simp add: testMemory_def)







lemma sqrt_1024 [simp]: "sqrt 1024 = 32"
  using real_sqrt_abs [of 32] by simp



subsection \<open>Consolidation: orchestrator\<close>

text \<open>
  C9 (as stated it fails): when the initial scan rejects, \<open>consolidate\<close> does not return
  a statistics object; it rethrows the error.
\<close>

theorem consolidate_rethrows_counterexample:
  "fst (consolidate exactArith
      (mockMemoryModel (Inl (Thrown ''Database connection failed'')) (Inr ())) 0)
   = Throws (Thrown ''Database connection failed'')
       \<lparr>startTime = 0, endTime = None, totalMemories = 0, pruned = 0, merged = 0,
          archived = 0, errors = [''Database connection failed''],
          statsSuccess = Some False\<rparr>"
  by (simp add: consolidate_def mockMemoryModel_def catchBlock_def)

text \<open>
  C9 (amended): when the initial scan fails, \<open>consolidate\<close> records \<open>success = false\<close>
  and the error message in the statistics object, logs it, and rethrows the error; when
  the scan and the three passes succeed it returns the statistics with
  \<open>success = true\<close> and the counts the three passes returned.
\<close>

theorem consolidate_amended:
  "(fst (getAllMemories repo 10000 w) = Inl e
      \<longrightarrow> fst (consolidate ar repo w) =
            Throws e \<lparr>startTime = nowMs repo w, endTime = None, totalMemories = 0,
                       pruned = 0, merged = 0, archived = 0, errors = [message e],
                       statsSuccess = Some False\<rparr>)
   \<and> (getAllMemories repo 10000 w = (Inr (Some memoriesBefore), w1)
        \<and> pruneLowQualityMemories repo w1 = (Inr prunedCount, writes1, w2)
        \<and> detectAndMergeDuplicates ar repo w2 = (Inr mergedCount, writes2, w3)
        \<and> archiveStaleMemories repo w3 = (Inr archivedCount, writes3, w4)
      \<longrightarrow> fst (consolidate ar repo w) =
            Returns \<lparr>startTime = nowMs repo w, endTime = Some (nowMs repo w4),
                       totalMemories = length memoriesBefore, pruned = prunedCount,
                       merged = mergedCount, archived = archivedCount, errors = [],
                       statsSuccess = Some True\<rparr>)"
proof -
  have a: "fst (getAllMemories repo 10000 w) = Inl e
      \<longrightarrow> fst (consolidate ar repo w) =
            Throws e \<lparr>startTime = nowMs repo w, endTime = None, totalMemories = 0,
                       pruned = 0, merged = 0, archived = 0, errors = [message e],
                       statsSuccess = Some False\<rparr>"
    by (cases "getAllMemories repo 10000 w")
       (auto simp: consolidate_def catchBlock_def)
  have b: "getAllMemories repo 10000 w = (Inr (Some memoriesBefore), w1)
        \<and> pruneLowQualityMemories repo w1 = (Inr prunedCount, writes1, w2)
        \<and> detectAndMergeDuplicates ar repo w2 = (Inr mergedCount, writes2, w3)
        \<and> archiveStaleMemories repo w3 = (Inr archivedCount, writes3, w4)
      \<longrightarrow> fst (consolidate ar repo w) =
            Returns \<lparr>startTime = nowMs repo w, endTime = Some (nowMs repo w4),
                       totalMemories = length memoriesBefore, pruned = prunedCount,
                       merged = mergedCount, archived = archivedCount, errors = [],
                       statsSuccess = Some True\<rparr>"
    by (simp add: consolidate_def)
  from a b show ?thesis by blast
qed

lemma prune_test: "pruneLowQualityMemories
      (mockMemoryModel (Inr (Some [testMemory ''1'' Undefined 10 (Some 0.2)])) (Inr ())) w
    = (Inr 1, [DeleteMemory ''1''], w)"
  by (simp add: pruneLowQualityMemories_def mockMemoryModel_def testMemory_def lowQuality_def
        geCount_def greaterNum_def)

lemma merge_test: "detectAndMergeDuplicates ar
      (mockMemoryModel (Inr (Some [testMemory ''1'' Undefined 10 (Some 0.2)])) (Inr ())) w
    = (Inr 0, [], w)"
  by (simp add: detectAndMergeDuplicates_def mockMemoryModel_def testMemory_def)

lemma archive_test: "archiveStaleMemories
      (mockMemoryModel (Inr (Some [testMemory ''1'' Undefined 10 (Some 0.2)])) (Inr ())) w
    = (Inr 0, [], w)"
  by (simp add: archiveStaleMemories_def mockMemoryModel_def testMemory_def isStale_def)

theorem consolidate_amended_witness:
  "fst (getAllMemories
      (mockMemoryModel (Inl (Thrown ''Database connection failed'')) (Inr ())) 10000 0)
     = Inl (Thrown ''Database connection failed'')
   \<and> fst (consolidate exactArith
      (mockMemoryModel (Inl (Thrown ''Database connection failed'')) (Inr ())) 0)
     = Throws (Thrown ''Database connection failed'')
       \<lparr>startTime = 0, endTime = None, totalMemories = 0, pruned = 0, merged = 0,
          archived = 0, errors = [''Database connection failed''],
          statsSuccess = Some False\<rparr>
   \<and> fst (consolidate exactArith
      (mockMemoryModel (Inr (Some [testMemory ''1'' Undefined 10 (Some 0.2)])) (Inr ())) 7)
     = Returns \<lparr>startTime = 7, endTime = Some 7, totalMemories = 1, pruned = 1,
          merged = 0, archived = 0, errors = [], statsSuccess = Some True\<rparr>"
proof -
  let ?bad = "mockMemoryModel (Inl (Thrown ''Database connection failed'')) (Inr ())"
  let ?ms = "[testMemory ''1'' Undefined 10 (Some 0.2)]"
  let ?good = "mockMemoryModel (Inr (Some ?ms)) (Inr ())"
  have h0: "fst (getAllMemories ?bad 10000 0) = Inl (Thrown ''Database connection failed'')"
    by (simp add: mockMemoryModel_def)
  have h1: "getAllMemories ?good 10000 7 = (Inr (Some ?ms), 7)"
    by (simp add: mockMemoryModel_def)
  from consolidate_amended [of ?bad 0 "Thrown ''Database connection failed''" exactArith "[]" 0 0 "[]" 0 0 "[]" 0 0 "[]" 0]
    consolidate_amended [of ?good 7 "Thrown []" exactArith ?ms 7 1 "[DeleteMemory ''1'']" 7 0 "[]" 7 0 "[]" 7]
    h0 h1 prune_test [of 7] merge_test [of exactArith 7] archive_test [of 7]
  show ?thesis
    by (simp add: mockMemoryModel_def)
qed

subsection \<open>Extraction from build results\<close>

lemma extractFromBuildFailure_failure_calls:
  "status build \<noteq> ''SUCCESS'' \<Longrightarrow>
   \<exists>calls. fst (snd (extractFromBuildFailure svc build w)) = GetModelName # calls"
  by (auto simp: extractFromBuildFailure_def extractMemories_def split_beta
      split: prod.splits sum.splits)

text \<open>
  C10: for a build result with status \<open>SUCCESS\<close>, \<open>extractFromBuildFailure\<close> returns
  the empty list, invokes no capability (text generation, embedder, repository) and
  leaves the world as it was.
\<close>

theorem extractFromBuildFailure_success:
  "status build = ''SUCCESS'' \<Longrightarrow> extractFromBuildFailure svc build w = ([], [], w)"
  by (simp add: extractFromBuildFailure_def)

theorem extractFromBuildFailure_success_witness:
  "status \<lparr>status = ''SUCCESS'', branch = ''main'', duration = None, recentCommits = None,
            errorLogs = None, buildId = ''b1''\<rparr> = ''SUCCESS''
   \<and> extractFromBuildFailure mockBuildServices
       \<lparr>status = ''SUCCESS'', branch = ''main'', duration = None, recentCommits = None,
          errorLogs = None, buildId = ''b1''\<rparr> 0 = ([], [], 0)
   \<and> fst (snd (extractFromBuildFailure mockBuildServices
       \<lparr>status = ''FAILURE'', branch = ''main'', duration = None, recentCommits = None,
          errorLogs = None, buildId = ''b1''\<rparr> 0))
       = [GetModelName, GenerateContent ''gemini'' ''Status: FAILURE'']"
proof -
  have a: "extractFromBuildFailure mockBuildServices
       \<lparr>status = ''SUCCESS'', branch = ''main'', duration = None, recentCommits = None,
          errorLogs = None, buildId = ''b1''\<rparr> 0 = ([], [], 0)"
    by (rule extractFromBuildFailure_success) simp
  have b: "fst (snd (extractFromBuildFailure mockBuildServices
       \<lparr>status = ''FAILURE'', branch = ''main'', duration = None, recentCommits = None,
          errorLogs = None, buildId = ''b1''\<rparr> 0))
       = [GetModelName, GenerateContent ''gemini'' ''Status: FAILURE'']"
    by (simp add: extractFromBuildFailure_def extractMemories_def mockBuildServices_def)
  from a b show ?thesis by simp
qed

subsection \<open>Parallel scaling\<close>

lemma foldl_pickBest_max:
  "foldl pickBest b ts \<in> set (b # ts)
   \<and> (\<forall>u\<in>set (b # ts). score u \<le> score (foldl pickBest b ts))"
proof (induction ts arbitrary: b)
  case Nil
  show ?case by simp
next
  case (Cons t ts)
  from Cons.IH [of "pickBest b t"] show ?case
    by (auto simp: pickBest_def split: if_splits)
qed

lemma foldl_pickBest_first:
  "sorted_wrt (\<lambda>x y. index x < index y) (b # ts) \<Longrightarrow>
   \<forall>u\<in>set (b # ts). score u = score (foldl pickBest b ts)
      \<longrightarrow> index (foldl pickBest b ts) \<le> index u"
proof (induction ts arbitrary: b)
  case Nil
  show ?case by simp
next
  case (Cons t ts)
  show ?case
  proof (cases "score t > score b")
    case True
    then have pb: "pickBest b t = t" by (simp add: pickBest_def)
    from Cons.prems have "sorted_wrt (\<lambda>x y. index x < index y) (t # ts)" by simp
    from Cons.IH [OF this] foldl_pickBest_max [of t ts] True show ?thesis
      by (auto simp: pb)
  next
    case False
    then have pb: "pickBest b t = b" by (simp add: pickBest_def)
    from Cons.prems have "sorted_wrt (\<lambda>x y. index x < index y) (b # ts)" by simp
    from Cons.IH [OF this] foldl_pickBest_max [of b ts] False Cons.prems show ?thesis
      by (auto simp: pb)
  qed
qed

lemma trajectoryOf_index [simp]: "index (trajectoryOf idx memorySet outcome) = idx"
  by (simp add: trajectoryOf_def split: sum.splits option.splits)

lemma runTrajectories_index:
  "map index (fst (runTrajectories executeFunction task chunks idx w))
     = [idx..<idx + length chunks]"
proof (induction chunks arbitrary: idx w)
  case Nil
  show ?case by simp
next
  case (Cons c chunks)
  have "[idx..<idx + length (c # chunks)] = idx # [Suc idx..<Suc idx + length chunks]"
    by (simp add: upt_conv_Cons del: upt_Suc)
  then show ?case
    using Cons.IH [of "Suc idx"]
    by (simp add: split_beta Let_def del: upt_Suc)
qed

lemma runTrajectories_raw:
  "\<forall>t\<in>set (fst (runTrajectories executeFunction task chunks idx w)).
     (case trajResult t of
        None \<Rightarrow> \<not> trajSuccess t \<and> score t = 0
      | Some r \<Rightarrow> trajSuccess t = success r \<and> score t = scoreTrajectory (Some r)
          \<and> (\<exists>m. (task, m, Inr (Some r))
                 \<in> set (fst (snd (runTrajectories executeFunction task chunks idx w)))))"
proof (induction chunks arbitrary: idx w)
  case Nil
  show ?case by simp
next
  case (Cons c chunks)
  obtain outcome w1 where e: "executeFunction task (Some c) w = (outcome, w1)"
    by (cases "executeFunction task (Some c) w")
  show ?case
    using Cons.IH [of "Suc idx" w1]
    by (auto simp: e split_beta Let_def trajectoryOf_def split: option.splits sum.splits)
qed

lemma bestTrajectory_some_success:
  assumes srt: "sorted_wrt (\<lambda>x y. index x < index y) ts"
    and ex: "\<exists>t\<in>set ts. trajSuccess t"
  shows "\<exists>t\<in>set ts. bestTrajectory ts = Some t \<and> trajSuccess t
     \<and> (\<forall>u\<in>set ts. trajSuccess u \<longrightarrow> score u \<le> score t)
     \<and> (\<forall>u\<in>set ts. trajSuccess u \<and> score u = score t \<longrightarrow> index t \<le> index u)"
proof -
  let ?ss = "filter trajSuccess ts"
  from ex have ne: "?ss \<noteq> []" by (simp add: filter_empty_conv)
  then obtain b rest where ss: "?ss = b # rest" by (cases ?ss) auto
  let ?t = "foldl pickBest b rest"
  have bt: "bestTrajectory ts = Some ?t"
    by (simp add: bestTrajectory_def ss)
  have "sorted_wrt (\<lambda>x y. index x < index y) (b # rest)"
    using sorted_wrt_filter [OF srt, of trajSuccess] by (simp add: ss)
  from foldl_pickBest_first [OF this] foldl_pickBest_max [of b rest]
  have m: "?t \<in> set ?ss" "\<forall>u\<in>set ?ss. score u \<le> score ?t"
    "\<forall>u\<in>set ?ss. score u = score ?t \<longrightarrow> index ?t \<le> index u"
    by (simp_all only: ss) blast+
  then show ?thesis
    using bt by (intro bexI [of _ ?t]) auto
qed

lemma bestTrajectory_none_success:
  "\<forall>t\<in>set ts. \<not> trajSuccess t \<Longrightarrow>
   bestTrajectory ts = (case ts of [] \<Rightarrow> None | t # _ \<Rightarrow> Some t)"
  by (simp add: bestTrajectory_def filter_empty_conv [THEN iffD2])

lemma distribute_length:
  "distribute numVariants idx memories chunks0 = Inr chunks \<Longrightarrow>
   length chunks = length chunks0 \<and> (memories \<noteq> [] \<longrightarrow> chunks0 \<noteq> [] \<and> numVariants \<noteq> 0)"
proof (induction memories arbitrary: idx chunks0)
  case Nil
  then show ?case by simp
next
  case (Cons m rest)
  then show ?case
    by (fastforce simp: Let_def split: if_splits)
qed

lemma distribute_nonpositive:
  "numVariants \<le> 0 \<Longrightarrow> memories \<noteq> [] \<Longrightarrow>
   distribute numVariants 0 memories (replicate (nat numVariants) []) = Inl TypeError"
  by (cases memories) (simp_all add: Let_def)

lemma distribute_positive:
  "0 < numVariants \<Longrightarrow> length chunks0 = nat numVariants \<Longrightarrow>
   \<exists>chunks. distribute numVariants idx memories chunks0 = Inr chunks"
proof (induction memories arbitrary: idx chunks0)
  case Nil
  show ?case by simp
next
  case (Cons m rest)
  then show ?case by (simp add: Let_def)
qed

lemma replicate_three: "replicate 3 ([] :: memory list) = [[], [], []]"
  by (simp add: numeral_3_eq_3)

lemma threeMemories_chunks:
  "distribute 3 0 threeMemories (replicate (nat 3) []) =
     Inr [[testMemory ''mem-1'' Undefined 0 None], [testMemory ''mem-2'' Undefined 0 None],
          [testMemory ''mem-3'' Undefined 0 None]]"
  by (simp add: threeMemories_def replicate_three Let_def)

lemma selection_run:
  "runTrajectories (mockExecute selectionOutcomes) ''test''
     [[testMemory ''mem-1'' Undefined 0 None], [testMemory ''mem-2'' Undefined 0 None],
      [testMemory ''mem-3'' Undefined 0 None]] 0 0
   = ([trajectoryOf 0 [testMemory ''mem-1'' Undefined 0 None]
         (Inr (Some (testResult None (Some 6000) None ''trajectory-0.5''))),
       trajectoryOf (Suc 0) [testMemory ''mem-2'' Undefined 0 None]
         (Inr (Some (testResult (Some 5) (Some 3000)
            (Some [''a'', ''b'', ''c'', ''d'', ''e'', ''f'']) ''trajectory-0.9''))),
       trajectoryOf (Suc (Suc 0)) [testMemory ''mem-3'' Undefined 0 None]
         (Inr (Some (testResult None (Some 3000) None ''trajectory-0.6'')))],
      [(''test'', Some [testMemory ''mem-1'' Undefined 0 None],
          Inr (Some (testResult None (Some 6000) None ''trajectory-0.5''))),
       (''test'', Some [testMemory ''mem-2'' Undefined 0 None],
          Inr (Some (testResult (Some 5) (Some 3000)
            (Some [''a'', ''b'', ''c'', ''d'', ''e'', ''f'']) ''trajectory-0.9''))),
       (''test'', Some [testMemory ''mem-3'' Undefined 0 None],
          Inr (Some (testResult None (Some 3000) None ''trajectory-0.6'')))],
      3)"
  by (simp add: mockExecute_def selectionOutcomes_def)

text \<open>
  C1 (as stated it fails): the three trajectories of the selection test all succeed,
  with the scores 0.5, 0.9 and 0.6, and the memory model rejects the update of the
  statistics of the winner's memories. The call does not return the result of the
  second trajectory: it rejects with the error of the update, which is awaited outside
  any \<^verbatim>\<open>try\<close>.
\<close>

theorem parallelScaling_stats_failure_counterexample:
  "map trajSuccess (fst (runTrajectories (mockExecute selectionOutcomes) ''test''
       [[testMemory ''mem-1'' Undefined 0 None], [testMemory ''mem-2'' Undefined 0 None],
        [testMemory ''mem-3'' Undefined 0 None]] 0 0))
     = [True, True, True]
   \<and> map score (fst (runTrajectories (mockExecute selectionOutcomes) ''test''
       [[testMemory ''mem-1'' Undefined 0 None], [testMemory ''mem-2'' Undefined 0 None],
        [testMemory ''mem-3'' Undefined 0 None]] 0 0))
     = [0.5, 0.9, 0.6]
   \<and> fst (parallelScaling True (failingStatsModel threeMemories) mockEmbedQuery ''test''
          (mockExecute selectionOutcomes) 3 0)
     = Inl (Thrown ''Stats failed'')"
proof -
  have a: "map trajSuccess (fst (runTrajectories (mockExecute selectionOutcomes) ''test''
       [[testMemory ''mem-1'' Undefined 0 None], [testMemory ''mem-2'' Undefined 0 None],
        [testMemory ''mem-3'' Undefined 0 None]] 0 0))
     = [True, True, True]"
    unfolding selection_run
    by (simp add: trajectoryOf_def testResult_def)
  have b: "map score (fst (runTrajectories (mockExecute selectionOutcomes) ''test''
       [[testMemory ''mem-1'' Undefined 0 None], [testMemory ''mem-2'' Undefined 0 None],
        [testMemory ''mem-3'' Undefined 0 None]] 0 0))
     = [0.5, 0.9, 0.6]"
    unfolding selection_run
    by (simp add: trajectoryOf_def testResult_def scoreTrajectory_def truthyNum_def)
  have c: "fst (parallelScaling True (failingStatsModel threeMemories) mockEmbedQuery ''test''
          (mockExecute selectionOutcomes) 3 0)
     = Inl (Thrown ''Stats failed'')"
  proof -
    have ne: "threeMemories \<noteq> []"
      by (simp add: threeMemories_def)
    have ch: "distribute 3 0 threeMemories (replicate 3 []) =
        Inr [[testMemory ''mem-1'' Undefined 0 None], [testMemory ''mem-2'' Undefined 0 None],
             [testMemory ''mem-3'' Undefined 0 None]]"
      using threeMemories_chunks by simp
    show ?thesis
      unfolding parallelScaling_def
      apply (simp add: mockEmbedQuery_def failingStatsModel_def mockMemoryModel_def ne)
      apply (simp add: ch selection_run del: runTrajectories.simps)
      apply (simp add: bestTrajectory_def pickBest_def trajectoryOf_def
          testResult_def scoreTrajectory_def truthyNum_def testMemory_def
          failingStatsModel_def mockMemoryModel_def)
      done
  qed
  from a b c show ?thesis by blast
qed

text \<open>
  C1 (amended): in a call of \<open>parallelScaling\<close> that reaches the fan-out (feature
  enabled, memories retrieved, \<open>numVariants\<close> chunks built): if some trajectory
  succeeded, there is a successful trajectory whose score is maximal among the
  successful ones and whose variant index is the lowest among those of that score, and
  the call returns the raw executor result of that trajectory unless the update of the
  statistics of its memories throws, in which case the call rejects with the error of
  the update; if no trajectory succeeded, the call returns the result field of the first
  variant's trajectory (null when its executor threw).
\<close>

theorem parallelScaling_selection:
  assumes en: "enabled"
    and emb: "embedQuery task w = (Inr q, w1)"
    and ret: "retrieveMemories repo q (numVariants * 3) 0.5 w1 = (Inr (Some memories), w2)"
    and ne: "memories \<noteq> []"
    and dist: "distribute numVariants 0 memories (replicate (nat numVariants) []) = Inr chunks"
    and run: "runTrajectories executeFunction task chunks 0 w2 = (trajectories, calls, w3)"
  shows "((\<exists>t\<in>set trajectories. trajSuccess t) \<longrightarrow>
            (\<exists>t\<in>set trajectories. \<exists>r.
                fst (parallelScaling enabled repo embedQuery task executeFunction numVariants w)
                  = (if memoriesUsed t = [] then Inr (Some r)
                     else case fst (updateMemoryStats repo (memoriesUsed t) True w3) of
                            Inl e \<Rightarrow> Inl e
                          | Inr u \<Rightarrow> Inr (Some r))
                \<and> trajResult t = Some r \<and> success r \<and> score t = scoreTrajectory (Some r)
                \<and> (\<exists>m. (task, m, Inr (Some r)) \<in> set calls)
                \<and> (\<forall>u\<in>set trajectories. trajSuccess u \<longrightarrow> score u \<le> score t)
                \<and> (\<forall>u\<in>set trajectories. trajSuccess u \<and> score u = score t
                      \<longrightarrow> index t \<le> index u)))
         \<and> ((\<forall>t\<in>set trajectories. \<not> trajSuccess t) \<longrightarrow>
              trajectories \<noteq> [] \<and> index (hd trajectories) = 0
              \<and> fst (parallelScaling enabled repo embedQuery task executeFunction numVariants w)
                  = Inr (trajResult (hd trajectories)))"
proof -
  let ?ps = "parallelScaling enabled repo embedQuery task executeFunction numVariants w"
  have ts: "trajectories = fst (runTrajectories executeFunction task chunks 0 w2)"
    and cs: "calls = fst (snd (runTrajectories executeFunction task chunks 0 w2))"
    by (simp_all add: run)
  have idx: "map index trajectories = [0..<length chunks]"
    using runTrajectories_index [of executeFunction task chunks 0 w2] by (simp add: ts)
  then have srt: "sorted_wrt (\<lambda>x y. index x < index y) trajectories"
    using sorted_wrt_upt [of 0 "length chunks"] by (simp add: sorted_wrt_map [symmetric])
  from distribute_length [OF dist] ne have cne: "chunks \<noteq> []" by auto
  moreover from idx have "length trajectories = length chunks"
    by (metis length_map length_upt minus_nat.diff_0)
  ultimately have tne: "trajectories \<noteq> []" by auto
  have "index (hd trajectories) = hd (map index trajectories)"
    using tne by (simp add: hd_map)
  also have "\<dots> = 0"
    using cne by (simp add: idx hd_upt del: upt_Suc)
  finally have hd0: "index (hd trajectories) = 0" .
  have unfold: "\<And>best. bestTrajectory trajectories = Some best \<Longrightarrow>
      ?ps = (if trajSuccess best \<and> length (memoriesUsed best) > 0
             then case updateMemoryStats repo (memoriesUsed best) True w3 of
                    (Inl e, w4) \<Rightarrow> (Inl e, calls, w4)
                  | (Inr u, w4) \<Rightarrow> (Inr (trajResult best), calls, w4)
             else (Inr (trajResult best), calls, w3))"
    using en ne ret by (simp add: parallelScaling_def emb dist run)
  have retv: "\<And>best. bestTrajectory trajectories = Some best \<Longrightarrow>
      fst ?ps = (if trajSuccess best \<and> memoriesUsed best \<noteq> []
                 then case fst (updateMemoryStats repo (memoriesUsed best) True w3) of
                        Inl e \<Rightarrow> Inl e
                      | Inr u \<Rightarrow> Inr (trajResult best)
                 else Inr (trajResult best))"
  proof -
    fix best
    assume b: "bestTrajectory trajectories = Some best"
    obtain o4 w4 where u: "updateMemoryStats repo (memoriesUsed best) True w3 = (o4, w4)"
      by (cases "updateMemoryStats repo (memoriesUsed best) True w3")
    show "fst ?ps = (if trajSuccess best \<and> memoriesUsed best \<noteq> []
                 then case fst (updateMemoryStats repo (memoriesUsed best) True w3) of
                        Inl e \<Rightarrow> Inl e
                      | Inr u \<Rightarrow> Inr (trajResult best)
                 else Inr (trajResult best))"
      by (cases o4) (simp_all add: unfold [OF b] u)
  qed
  have a: "(\<exists>t\<in>set trajectories. trajSuccess t) \<longrightarrow>
            (\<exists>t\<in>set trajectories. \<exists>r.
                fst ?ps = (if memoriesUsed t = [] then Inr (Some r)
                     else case fst (updateMemoryStats repo (memoriesUsed t) True w3) of
                            Inl e \<Rightarrow> Inl e
                          | Inr u \<Rightarrow> Inr (Some r))
                \<and> trajResult t = Some r \<and> success r \<and> score t = scoreTrajectory (Some r)
                \<and> (\<exists>m. (task, m, Inr (Some r)) \<in> set calls)
                \<and> (\<forall>u\<in>set trajectories. trajSuccess u \<longrightarrow> score u \<le> score t)
                \<and> (\<forall>u\<in>set trajectories. trajSuccess u \<and> score u = score t
                      \<longrightarrow> index t \<le> index u))"
  proof
    assume "\<exists>t\<in>set trajectories. trajSuccess t"
    from bestTrajectory_some_success [OF srt this]
    obtain t where t: "t \<in> set trajectories" "bestTrajectory trajectories = Some t"
      "trajSuccess t"
      "\<forall>u\<in>set trajectories. trajSuccess u \<longrightarrow> score u \<le> score t"
      "\<forall>u\<in>set trajectories. trajSuccess u \<and> score u = score t \<longrightarrow> index t \<le> index u"
      by blast
    from runTrajectories_raw [of executeFunction task chunks 0 w2] t(1) t(3)
    obtain r where r: "trajResult t = Some r" "success r" "score t = scoreTrajectory (Some r)"
      "\<exists>m. (task, m, Inr (Some r)) \<in> set calls"
      by (cases "trajResult t") (auto simp: ts cs)
    from retv [OF t(2)] r(1) t(3)
    have "fst ?ps = (if memoriesUsed t = [] then Inr (Some r)
                     else case fst (updateMemoryStats repo (memoriesUsed t) True w3) of
                            Inl e \<Rightarrow> Inl e
                          | Inr u \<Rightarrow> Inr (Some r))"
      by (simp cong: sum.case_cong)
    with t r show "\<exists>t\<in>set trajectories. \<exists>r.
                fst ?ps = (if memoriesUsed t = [] then Inr (Some r)
                     else case fst (updateMemoryStats repo (memoriesUsed t) True w3) of
                            Inl e \<Rightarrow> Inl e
                          | Inr u \<Rightarrow> Inr (Some r))
                \<and> trajResult t = Some r \<and> success r \<and> score t = scoreTrajectory (Some r)
                \<and> (\<exists>m. (task, m, Inr (Some r)) \<in> set calls)
                \<and> (\<forall>u\<in>set trajectories. trajSuccess u \<longrightarrow> score u \<le> score t)
                \<and> (\<forall>u\<in>set trajectories. trajSuccess u \<and> score u = score t
                      \<longrightarrow> index t \<le> index u)"
      by blast
  qed
  have b: "(\<forall>t\<in>set trajectories. \<not> trajSuccess t) \<longrightarrow>
              trajectories \<noteq> [] \<and> index (hd trajectories) = 0
              \<and> fst ?ps = Inr (trajResult (hd trajectories))"
  proof
    assume nos: "\<forall>t\<in>set trajectories. \<not> trajSuccess t"
    from bestTrajectory_none_success [OF this] tne
    have "bestTrajectory trajectories = Some (hd trajectories)"
      by (cases trajectories) simp_all
    from retv [OF this] tne hd0 nos
    show "trajectories \<noteq> [] \<and> index (hd trajectories) = 0
              \<and> fst ?ps = Inr (trajResult (hd trajectories))"
      by simp
  qed
  from a b show ?thesis by blast
qed

theorem parallelScaling_selection_witness:
  "fst (parallelScaling True (mockMemoryModel (Inr (Some threeMemories)) (Inr ()))
          mockEmbedQuery ''test'' (mockExecute selectionOutcomes) 3 0)
   = Inr (Some (testResult (Some 5) (Some 3000)
                  (Some [''a'', ''b'', ''c'', ''d'', ''e'', ''f'']) ''trajectory-0.9''))
   \<and> fst (parallelScaling True (mockMemoryModel (Inr (Some threeMemories)) (Inr ()))
          mockEmbedQuery ''test'' (mockExecute [Inl (Thrown ''All failed'')]) 3 0)
   = Inr None
   \<and> fst (parallelScaling True (failingStatsModel threeMemories)
          mockEmbedQuery ''test'' (mockExecute [Inl (Thrown ''All failed'')]) 3 0)
   = Inr None"
proof -
  let ?repo = "mockMemoryModel (Inr (Some threeMemories)) (Inr ())"
  let ?bad = "failingStatsModel threeMemories"
  let ?chunks = "[[testMemory ''mem-1'' Undefined 0 None],
      [testMemory ''mem-2'' Undefined 0 None], [testMemory ''mem-3'' Undefined 0 None]]"
  let ?r0 = "testResult None (Some 6000) None ''trajectory-0.5''"
  let ?r1 = "testResult (Some 5) (Some 3000)
      (Some [''a'', ''b'', ''c'', ''d'', ''e'', ''f'']) ''trajectory-0.9''"
  let ?r2 = "testResult None (Some 3000) None ''trajectory-0.6''"
  let ?ts = "[trajectoryOf 0 [testMemory ''mem-1'' Undefined 0 None] (Inr (Some ?r0)),
      trajectoryOf (Suc 0) [testMemory ''mem-2'' Undefined 0 None] (Inr (Some ?r1)),
      trajectoryOf (Suc (Suc 0)) [testMemory ''mem-3'' Undefined 0 None] (Inr (Some ?r2))]"
  let ?calls = "[(''test'', Some [testMemory ''mem-1'' Undefined 0 None], Inr (Some ?r0)),
      (''test'', Some [testMemory ''mem-2'' Undefined 0 None], Inr (Some ?r1)),
      (''test'', Some [testMemory ''mem-3'' Undefined 0 None], Inr (Some ?r2))]"
  let ?fs = "[trajectoryOf 0 [testMemory ''mem-1'' Undefined 0 None] (Inl (Thrown ''All failed'')),
      trajectoryOf (Suc 0) [testMemory ''mem-2'' Undefined 0 None] (Inl (Thrown ''All failed'')),
      trajectoryOf (Suc (Suc 0)) [testMemory ''mem-3'' Undefined 0 None] (Inl (Thrown ''All failed''))]"
  let ?fcalls = "[(''test'', Some [testMemory ''mem-1'' Undefined 0 None], Inl (Thrown ''All failed'')),
      (''test'', Some [testMemory ''mem-2'' Undefined 0 None], Inl (Thrown ''All failed'')),
      (''test'', Some [testMemory ''mem-3'' Undefined 0 None], Inl (Thrown ''All failed''))]"
  have emb: "mockEmbedQuery ''test'' 0 = (Inr [0.5], 0)"
    by (simp add: mockEmbedQuery_def)
  have ret: "retrieveMemories ?repo [0.5] (3 * 3) 0.5 0 = (Inr (Some threeMemories), 0)"
    by (simp add: mockMemoryModel_def)
  have bret: "retrieveMemories ?bad [0.5] (3 * 3) 0.5 0 = (Inr (Some threeMemories), 0)"
    by (simp add: failingStatsModel_def mockMemoryModel_def)
  have ne: "threeMemories \<noteq> []"
    by (simp add: threeMemories_def)
  have run: "runTrajectories (mockExecute selectionOutcomes) ''test'' ?chunks 0 0
      = (?ts, ?calls, 3)"
    by (rule selection_run)
  have frun: "runTrajectories (mockExecute [Inl (Thrown ''All failed'')]) ''test'' ?chunks 0 0
      = (?fs, ?fcalls, 3)"
    by (simp add: mockExecute_def)
  have stats: "\<And>ids s. fst (updateMemoryStats ?repo ids True s) = Inr ()"
    by (simp add: mockMemoryModel_def)
  have sc: "scoreTrajectory (Some ?r0) = 0.5" "scoreTrajectory (Some ?r1) = 0.9"
    "scoreTrajectory (Some ?r2) = 0.6"
    by (simp_all add: scoreTrajectory_def testResult_def truthyNum_def)
  have a: "fst (parallelScaling True ?repo mockEmbedQuery ''test''
        (mockExecute selectionOutcomes) 3 0) = Inr (Some ?r1)"
    using parallelScaling_selection [where enabled = True and embedQuery = mockEmbedQuery
        and task = "''test''" and w = 0 and q = "[0.5]" and ?w1.0 = 0 and repo = ?repo
        and numVariants = 3 and memories = threeMemories and ?w2.0 = 0 and chunks = ?chunks
        and executeFunction = "mockExecute selectionOutcomes" and trajectories = ?ts
        and calls = ?calls and ?w3.0 = 3,
        OF TrueI emb ret ne threeMemories_chunks run]
    apply (simp add: trajectoryOf_def sc stats)
    apply (simp add: testResult_def)
    done
  have b: "fst (parallelScaling True ?repo mockEmbedQuery ''test''
        (mockExecute [Inl (Thrown ''All failed'')]) 3 0) = Inr None"
    using parallelScaling_selection [where enabled = True and embedQuery = mockEmbedQuery
        and task = "''test''" and w = 0 and q = "[0.5]" and ?w1.0 = 0 and repo = ?repo
        and numVariants = 3 and memories = threeMemories and ?w2.0 = 0 and chunks = ?chunks
        and executeFunction = "mockExecute [Inl (Thrown ''All failed'')]"
        and trajectories = ?fs and calls = ?fcalls and ?w3.0 = 3,
        OF TrueI emb ret ne threeMemories_chunks frun]
    by (simp add: trajectoryOf_def)
  have c: "fst (parallelScaling True ?bad mockEmbedQuery ''test''
        (mockExecute [Inl (Thrown ''All failed'')]) 3 0) = Inr None"
    using parallelScaling_selection [where enabled = True and embedQuery = mockEmbedQuery
        and task = "''test''" and w = 0 and q = "[0.5]" and ?w1.0 = 0 and repo = ?bad
        and numVariants = 3 and memories = threeMemories and ?w2.0 = 0 and chunks = ?chunks
        and executeFunction = "mockExecute [Inl (Thrown ''All failed'')]"
        and trajectories = ?fs and calls = ?fcalls and ?w3.0 = 3,
        OF TrueI emb bret ne threeMemories_chunks frun]
    by (simp add: trajectoryOf_def)
  from a b c show ?thesis by simp
qed

lemma singleExecution_once:
  "fst (singleExecution executeFunction task w) = fst (executeFunction task (Some []) w)
   \<and> fst (snd (singleExecution executeFunction task w))
       = [(task, Some [], fst (executeFunction task (Some []) w))]"
  by (simp add: singleExecution_def split_beta)

lemma parallelScaling_disabled:
  "parallelScaling False repo embedQuery task executeFunction numVariants w
     = singleExecution executeFunction task w"
  by (simp add: parallelScaling_def)

lemma parallelScaling_no_memories:
  assumes "embedQuery task w = (Inr q, w1)"
    and "retrieveMemories repo q (numVariants * 3) 0.5 w1 = (Inr memories, w2)"
    and "memories = None \<or> memories = Some []"
  shows "parallelScaling True repo embedQuery task executeFunction numVariants w
     = singleExecution executeFunction task w2"
  using assms by (auto simp: parallelScaling_def)

lemma distribute_no_chunks:
  "memories \<noteq> [] \<Longrightarrow> distribute numVariants idx memories [] = Inl TypeError"
  by (cases memories) (simp_all add: Let_def)

lemma parallelScaling_nonpositive:
  assumes "embedQuery task w = (Inr q, w1)"
    and "retrieveMemories repo q (numVariants * 3) 0.5 w1 = (Inr (Some memories), w2)"
    and "memories \<noteq> []" and "numVariants \<le> 0"
  shows "parallelScaling True repo embedQuery task executeFunction numVariants w
     = (Inl TypeError, [], w2)"
  using assms by (simp add: parallelScaling_def distribute_no_chunks)

text \<open>
  C8 (the code departs from it): with the feature enabled and one memory retrieved, a
  requested variant count of 0 or -1 makes \<open>parallelScaling\<close> throw a TypeError while
  distributing the memories; the executor is never called. The fallback to a single
  execution is taken only when the feature is disabled or no memory is retrieved
  (\<open>parallelScaling_disabled\<close>, \<open>parallelScaling_no_memories\<close>).
\<close>

theorem parallelScaling_nonpositive_variants_throws:
  "parallelScaling True
      (mockMemoryModel (Inr (Some [testMemory ''mem-1'' Undefined 0 None])) (Inr ()))
      mockEmbedQuery ''test''
      (mockExecute [Inr (Some (testResult None None None ''done''))]) 0 0
     = (Inl TypeError, [], 0)
   \<and> parallelScaling True
      (mockMemoryModel (Inr (Some [testMemory ''mem-1'' Undefined 0 None])) (Inr ()))
      mockEmbedQuery ''test''
      (mockExecute [Inr (Some (testResult None None None ''done''))]) (- 1) 0
     = (Inl TypeError, [], 0)"
  by (simp add: parallelScaling_def mockMemoryModel_def mockEmbedQuery_def)

subsection \<open>Sequential scaling\<close>
















end
